theory Spec2Isabelle
  imports Complex_Main
begin

section \<open>JavaScript numbers\<close>

text \<open>
  The calculation module of the repository (\<^verbatim>\<open>utils/calculations\<close>) computes on JavaScript
  \<^verbatim>\<open>number\<close>s. A number is modelled as a finite value, one of the two infinities, or NaN.
  Finite values are exact reals: rounding, overflow to an infinity and the sign of zero are
  not part of the model (every zero is \<^verbatim>\<open>+0\<close>, which is the zero the divisors of
  this code can take). The non-finite results that the operators and the \<^verbatim>\<open>Math\<close>
  functions produce from finite operands (a division by zero, the logarithm of a number that
  is not positive, a negative base with a fractional exponent) follow ECMAScript. Loop
  counters are natural numbers.

  Finite values being exact, the statements below on the length of the returned sequence,
  on the constants of the projection and on the payoff time are kept to what does not rest on
  that exactness: they are about every sequence that the function returns, or about
  parameter sets whose constants are fixed by comparisons alone, and they follow from the
  control flow of the code and the case rules of the operators. The lemmas on the
  real-valued formulas serve to evaluate the function at concrete inputs.
\<close>

datatype jsnum = Fin real | PInf | NInf | NaN

text \<open>The sign of a number, and the infinity of a given sign (NaN for sign zero).\<close>

fun sgn_of :: "jsnum \<Rightarrow> real" where
  "sgn_of (Fin x) = sgn x"
| "sgn_of PInf = 1"
| "sgn_of NInf = - 1"
| "sgn_of NaN = 0"

definition signed_inf :: "real \<Rightarrow> jsnum" where
  "signed_inf s = (if 0 < s then PInf else if s < 0 then NInf else NaN)"

instantiation jsnum :: "{zero, one, plus, minus, uminus, times, inverse, ord}"
begin

definition zero_jsnum :: jsnum where
  "zero_jsnum = Fin 0"

definition one_jsnum :: jsnum where
  "one_jsnum = Fin 1"

fun plus_jsnum :: "jsnum \<Rightarrow> jsnum \<Rightarrow> jsnum" where
  "plus_jsnum (Fin x) (Fin y) = Fin (x + y)"
| "plus_jsnum NaN b = NaN"
| "plus_jsnum a NaN = NaN"
| "plus_jsnum PInf NInf = NaN"
| "plus_jsnum NInf PInf = NaN"
| "plus_jsnum PInf b = PInf"
| "plus_jsnum a PInf = PInf"
| "plus_jsnum NInf b = NInf"
| "plus_jsnum a NInf = NInf"

fun uminus_jsnum :: "jsnum \<Rightarrow> jsnum" where
  "uminus_jsnum (Fin x) = Fin (- x)"
| "uminus_jsnum PInf = NInf"
| "uminus_jsnum NInf = PInf"
| "uminus_jsnum NaN = NaN"

definition minus_jsnum :: "jsnum \<Rightarrow> jsnum \<Rightarrow> jsnum" where
  "minus_jsnum a b = a + (- b)"

fun times_jsnum :: "jsnum \<Rightarrow> jsnum \<Rightarrow> jsnum" where
  "times_jsnum (Fin x) (Fin y) = Fin (x * y)"
| "times_jsnum NaN b = NaN"
| "times_jsnum a NaN = NaN"
| "times_jsnum a b = signed_inf (sgn_of a * sgn_of b)"

fun divide_jsnum :: "jsnum \<Rightarrow> jsnum \<Rightarrow> jsnum" where
  "divide_jsnum (Fin x) (Fin y) = (if y = 0 then signed_inf x else Fin (x / y))"
| "divide_jsnum NaN b = NaN"
| "divide_jsnum a NaN = NaN"
| "divide_jsnum (Fin x) b = Fin 0"
| "divide_jsnum a (Fin y) = signed_inf (if y < 0 then - sgn_of a else sgn_of a)"
| "divide_jsnum a b = NaN"

definition inverse_jsnum :: "jsnum \<Rightarrow> jsnum" where
  "inverse_jsnum a = divide (Fin 1) a"

fun less_eq_jsnum :: "jsnum \<Rightarrow> jsnum \<Rightarrow> bool" where
  "less_eq_jsnum (Fin x) (Fin y) = (x \<le> y)"
| "less_eq_jsnum NaN b = False"
| "less_eq_jsnum a NaN = False"
| "less_eq_jsnum NInf b = True"
| "less_eq_jsnum a PInf = True"
| "less_eq_jsnum a b = False"

fun less_jsnum :: "jsnum \<Rightarrow> jsnum \<Rightarrow> bool" where
  "less_jsnum (Fin x) (Fin y) = (x < y)"
| "less_jsnum NaN b = False"
| "less_jsnum a NaN = False"
| "less_jsnum PInf b = False"
| "less_jsnum a NInf = False"
| "less_jsnum a b = True"

instance ..

end

instance jsnum :: semigroup_add
proof
  fix a b c :: jsnum
  show "a + b + c = a + (b + c)"
    by (cases a; cases b; cases c) simp_all
qed

instance jsnum :: numeral ..

text \<open>Strict equality \<^verbatim>\<open>===\<close> on numbers: NaN is equal to nothing.\<close>

definition strict_eq :: "jsnum \<Rightarrow> jsnum \<Rightarrow> bool" where
  "strict_eq a b = (a \<noteq> NaN \<and> b \<noteq> NaN \<and> a = b)"

text \<open>\<^verbatim>\<open>Math.max\<close> and \<^verbatim>\<open>Math.min\<close> of two numbers: NaN if either is NaN.\<close>

definition Math_max :: "jsnum \<Rightarrow> jsnum \<Rightarrow> jsnum" where
  "Math_max a b = (if a = NaN \<or> b = NaN then NaN else if a \<le> b then b else a)"

definition Math_min :: "jsnum \<Rightarrow> jsnum \<Rightarrow> jsnum" where
  "Math_min a b = (if a = NaN \<or> b = NaN then NaN else if a \<le> b then a else b)"

fun Math_ceil :: "jsnum \<Rightarrow> jsnum" where
  "Math_ceil (Fin x) = Fin (of_int \<lceil>x\<rceil>)"
| "Math_ceil a = a"

fun Math_log :: "jsnum \<Rightarrow> jsnum" where
  "Math_log (Fin x) = (if x < 0 then NaN else if x = 0 then NInf else Fin (ln x))"
| "Math_log PInf = PInf"
| "Math_log NInf = NaN"
| "Math_log NaN = NaN"

text \<open>
  \<^verbatim>\<open>Math.pow\<close>, in the case order of ECMAScript's \<^verbatim>\<open>Number::exponentiate\<close>: a NaN
  exponent, a zero exponent, a NaN base, an infinite base, a zero base, an infinite
  exponent, a negative base with a fractional exponent, and the real power.
\<close>

definition is_odd_integer :: "real \<Rightarrow> bool" where
  "is_odd_integer y = (y \<in> \<int> \<and> odd \<lfloor>y\<rfloor>)"

fun Math_pow :: "jsnum \<Rightarrow> jsnum \<Rightarrow> jsnum" where
  "Math_pow b NaN = NaN"
| "Math_pow NaN e = (if e = Fin 0 then Fin 1 else NaN)"
| "Math_pow PInf e = (if e = Fin 0 then Fin 1 else if Fin 0 < e then PInf else Fin 0)"
| "Math_pow NInf (Fin y) =
     (if y = 0 then Fin 1
      else if 0 < y then (if is_odd_integer y then NInf else PInf)
      else Fin 0)"
| "Math_pow NInf PInf = PInf"
| "Math_pow NInf NInf = Fin 0"
| "Math_pow (Fin x) PInf =
     (if 1 < \<bar>x\<bar> then PInf else if \<bar>x\<bar> = 1 then NaN else Fin 0)"
| "Math_pow (Fin x) NInf =
     (if 1 < \<bar>x\<bar> then Fin 0 else if \<bar>x\<bar> = 1 then NaN else PInf)"
| "Math_pow (Fin x) (Fin y) =
     (if y = 0 then Fin 1
      else if x = 0 then (if 0 < y then Fin 0 else PInf)
      else if 0 < x then Fin (x powr y)
      else if y \<in> \<int> then Fin (x powi \<lfloor>y\<rfloor>)
      else NaN)"


section \<open>The calculation module\<close>

text \<open>The form's \<^verbatim>\<open>InvestmentInputs\<close> and the module's \<^verbatim>\<open>YearlyProjection\<close>.\<close>

record InvestmentInputs =
  initialNetWorth :: jsnum
  yearlyInvestment :: jsnum
  weeklyRent :: jsnum
  stockAnnualReturn :: jsnum
  houseCost :: jsnum
  mortgageRate :: jsnum
  houseGrowthRate :: jsnum
  ownersCorp :: jsnum

text \<open>
  The field \<open>year\<close> holds the loop counter of \<^verbatim>\<open>calculateProjections\<close>, which starts at 1
  and is incremented by 1: a natural number.
\<close>

record YearlyProjection =
  year :: nat
  stockValue :: jsnum
  stockCumulativeInvestment :: jsnum
  rentPaid :: jsnum
  stockNetWorth :: jsnum
  propertyValue :: jsnum
  mortgageBalance :: jsnum
  propertyNetWorth :: jsnum
  propertyEquity :: jsnum
  totalInterestPaid :: jsnum
  ownersCostsPaid :: jsnum
  stockTotalCost :: jsnum
  propertyTotalCost :: jsnum

abbreviation num :: "nat \<Rightarrow> jsnum" where
  "num n \<equiv> Fin (real n)"

subsection \<open>Amortization\<close>

text \<open>
  The parameter \<^verbatim>\<open>principal\<close> of the source is written \<open>principal'\<close>, the plain name
  being a constant of the library.
\<close>

definition calculateMortgagePayment :: "jsnum \<Rightarrow> jsnum \<Rightarrow> jsnum \<Rightarrow> jsnum" where
  "calculateMortgagePayment principal' annualRate termYears =
     (let monthlyRate = annualRate / 100 / 12;
          numPayments = termYears * 12
      in if strict_eq monthlyRate 0 then principal' / numPayments
         else principal' * (monthlyRate * Math_pow (1 + monthlyRate) numPayments) /
              (Math_pow (1 + monthlyRate) numPayments - 1))"

definition calculatePayoffTime :: "jsnum \<Rightarrow> jsnum \<Rightarrow> jsnum \<Rightarrow> jsnum \<Rightarrow> jsnum" where
  "calculatePayoffTime principal' annualRate monthlyPayment extraAnnualPayment =
     (if extraAnnualPayment \<le> 0 then 30
      else
        let monthlyRate = annualRate / 100 / 12;
            totalMonthlyPayment = monthlyPayment + (extraAnnualPayment / 12)
        in if strict_eq monthlyRate 0 then principal' / (totalMonthlyPayment * 12)
           else
             let months = - Math_log (1 - (principal' * monthlyRate) / totalMonthlyPayment) /
                            Math_log (1 + monthlyRate)
             in Math_max (Fin (1 / 10)) (months / 12))"

definition calculateMortgageBalance ::
  "jsnum \<Rightarrow> jsnum \<Rightarrow> jsnum \<Rightarrow> jsnum \<Rightarrow> jsnum \<Rightarrow> jsnum" where
  "calculateMortgageBalance principal' annualRate monthlyPayment extraAnnualPayment yearsPaid =
     (let monthlyRate = annualRate / 100 / 12;
          totalMonthlyPayment = monthlyPayment + (extraAnnualPayment / 12);
          monthsPaid = yearsPaid * 12
      in if strict_eq monthlyRate 0
         then Math_max 0 (principal' - (totalMonthlyPayment * monthsPaid))
         else
           let remainingBalance =
                 principal' * Math_pow (1 + monthlyRate) monthsPaid -
                 totalMonthlyPayment * ((Math_pow (1 + monthlyRate) monthsPaid - 1) / monthlyRate)
           in Math_max 0 remainingBalance)"

text \<open>
  The loop of \<^verbatim>\<open>calculateInterestPaid\<close>, on its variables \<^verbatim>\<open>month\<close>,
  \<^verbatim>\<open>balance\<close> and \<^verbatim>\<open>totalInterest\<close>. With an infinite \<^verbatim>\<open>monthsPaid\<close> and a balance
  that stays positive the source loop does not end: the result \<open>None\<close>.
\<close>

partial_function (option) interestLoop ::
  "jsnum \<Rightarrow> jsnum \<Rightarrow> jsnum \<Rightarrow> nat \<Rightarrow> jsnum \<Rightarrow> jsnum \<Rightarrow> jsnum option" where
  "interestLoop monthlyRate totalMonthlyPayment monthsPaid month balance totalInterest =
     (if num month < monthsPaid \<and> 0 < balance then
        (let interestPayment = balance * monthlyRate;
             principalPayment = Math_min balance (totalMonthlyPayment - interestPayment)
         in interestLoop monthlyRate totalMonthlyPayment monthsPaid (Suc month)
              (balance - principalPayment) (totalInterest + interestPayment))
      else Some totalInterest)"

definition calculateInterestPaid ::
  "jsnum \<Rightarrow> jsnum \<Rightarrow> jsnum \<Rightarrow> jsnum \<Rightarrow> jsnum \<Rightarrow> jsnum option" where
  "calculateInterestPaid principal' annualRate monthlyPayment extraAnnualPayment yearsPaid =
     (let monthlyRate = annualRate / 100 / 12;
          totalMonthlyPayment = monthlyPayment + (extraAnnualPayment / 12);
          monthsPaid = yearsPaid * 12
      in interestLoop monthlyRate totalMonthlyPayment monthsPaid 0 principal' 0)"

subsection \<open>The comparison table's copy of the balance formula\<close>

text \<open>
  \<^verbatim>\<open>components/ComparisonTable.tsx\<close> has its own \<^verbatim>\<open>calculateMortgageBalance\<close>, which
  returns 0 from 30 years on before it evaluates the formula; the rest of its body is the
  body of the calculation module's function.
\<close>

definition calculateMortgageBalance_table ::
  "jsnum \<Rightarrow> jsnum \<Rightarrow> jsnum \<Rightarrow> jsnum \<Rightarrow> jsnum \<Rightarrow> jsnum" where
  "calculateMortgageBalance_table principal' annualRate monthlyPayment extraAnnualPayment yearsPaid =
     (if 30 \<le> yearsPaid then 0
      else
        let monthlyRate = annualRate / 100 / 12;
            totalMonthlyPayment = monthlyPayment + extraAnnualPayment / 12;
            monthsPaid = yearsPaid * 12
        in if strict_eq monthlyRate 0
           then Math_max 0 (principal' - totalMonthlyPayment * monthsPaid)
           else
             let remainingBalance =
                   principal' * Math_pow (1 + monthlyRate) monthsPaid -
                   totalMonthlyPayment *
                     ((Math_pow (1 + monthlyRate) monthsPaid - 1) / monthlyRate)
             in Math_max 0 remainingBalance)"

subsection \<open>The projection\<close>

text \<open>The constants that \<^verbatim>\<open>calculateProjections\<close> computes before its loop.\<close>

definition loanAmount :: "InvestmentInputs \<Rightarrow> jsnum" where
  "loanAmount inputs = houseCost inputs - initialNetWorth inputs"

definition monthlyMortgage :: "InvestmentInputs \<Rightarrow> jsnum" where
  "monthlyMortgage inputs =
     (if 0 < loanAmount inputs
      then calculateMortgagePayment (loanAmount inputs) (mortgageRate inputs) 30
      else 0)"

definition annualMortgageCosts :: "InvestmentInputs \<Rightarrow> jsnum" where
  "annualMortgageCosts inputs = monthlyMortgage inputs * 12 + ownersCorp inputs"

definition extraAnnualPayment :: "InvestmentInputs \<Rightarrow> jsnum" where
  "extraAnnualPayment inputs =
     Math_max 0 (yearlyInvestment inputs - annualMortgageCosts inputs)"

definition payoffTime :: "InvestmentInputs \<Rightarrow> jsnum" where
  "payoffTime inputs =
     (if 0 < loanAmount inputs
      then calculatePayoffTime (loanAmount inputs) (mortgageRate inputs)
             (monthlyMortgage inputs) (extraAnnualPayment inputs)
      else 0)"

definition maxYears :: "InvestmentInputs \<Rightarrow> jsnum" where
  "maxYears inputs = Math_max 5 (Math_ceil (payoffTime inputs) + 2)"

definition annualRent :: "InvestmentInputs \<Rightarrow> jsnum" where
  "annualRent inputs = weeklyRent inputs * 52"

text \<open>
  The loop of \<^verbatim>\<open>calculateProjections\<close>. Its state is the counter \<open>y\<close> (the source's
  \<^verbatim>\<open>year\<close>), the running totals \<^verbatim>\<open>stockValue\<close>, \<^verbatim>\<open>cumulativeRent\<close> and
  \<^verbatim>\<open>cumulativeOwnersCosts\<close> on entry to the iteration, and the array \<^verbatim>\<open>projections\<close>.
  The variable \<^verbatim>\<open>propertyValue\<close> is assigned in every iteration before it is read. The
  \<^verbatim>\<open>break\<close> returns the array; a loop that does not end is \<open>None\<close>.
\<close>

partial_function (option) projectionLoop ::
  "InvestmentInputs \<Rightarrow> nat \<Rightarrow> jsnum \<Rightarrow> jsnum \<Rightarrow> jsnum \<Rightarrow> YearlyProjection list
     \<Rightarrow> YearlyProjection list option" where
  "projectionLoop inputs y stockValue0 cumulativeRent0 cumulativeOwnersCosts0 projections =
     (if num y \<le> maxYears inputs then
        (let rentThisYear = annualRent inputs;
             cumulativeRent = cumulativeRent0 + rentThisYear;
             netStockInvestment = yearlyInvestment inputs - rentThisYear;
             stockValue = stockValue0 * (1 + stockAnnualReturn inputs / 100) + netStockInvestment;
             mortgageBalance =
               calculateMortgageBalance (loanAmount inputs) (mortgageRate inputs)
                 (monthlyMortgage inputs) (extraAnnualPayment inputs) (num y)
         in case calculateInterestPaid (loanAmount inputs) (mortgageRate inputs)
                   (monthlyMortgage inputs) (extraAnnualPayment inputs) (num y) of
              None \<Rightarrow> None
            | Some interestPaid \<Rightarrow>
               (let cumulativeOwnersCosts = cumulativeOwnersCosts0 + ownersCorp inputs;
                    propertyValue =
                      houseCost inputs * Math_pow (1 + houseGrowthRate inputs / 100) (num y);
                    stockNetWorth = stockValue;
                    propertyNetWorth = propertyValue - mortgageBalance;
                    propertyEquity = propertyValue - mortgageBalance;
                    stockTotalCost =
                      cumulativeRent +
                      (initialNetWorth inputs * stockAnnualReturn inputs / 100 * num y);
                    propertyTotalCost = interestPaid + cumulativeOwnersCosts;
                    projections' = projections @
                      [\<lparr> year = y,
                         stockValue = stockValue,
                         stockCumulativeInvestment =
                           initialNetWorth inputs + (netStockInvestment * num y),
                         rentPaid = cumulativeRent,
                         stockNetWorth = stockNetWorth,
                         propertyValue = propertyValue,
                         mortgageBalance = mortgageBalance,
                         propertyNetWorth = propertyNetWorth,
                         propertyEquity = propertyEquity,
                         totalInterestPaid = interestPaid,
                         ownersCostsPaid = cumulativeOwnersCosts,
                         stockTotalCost = stockTotalCost,
                         propertyTotalCost = propertyTotalCost \<rparr>]
                in if mortgageBalance \<le> 0 \<and> payoffTime inputs < num y
                   then Some projections'
                   else projectionLoop inputs (Suc y) stockValue cumulativeRent
                          cumulativeOwnersCosts projections'))
      else Some projections)"

definition calculateProjections :: "InvestmentInputs \<Rightarrow> YearlyProjection list option" where
  "calculateProjections inputs = projectionLoop inputs 1 (initialNetWorth inputs) 0 0 []"


subsection \<open>One iteration of the loop\<close>

text \<open>
  The object that the iteration for year \<open>y\<close> pushes, from the running totals on entry to
  the iteration and the interest that \<^verbatim>\<open>calculateInterestPaid\<close> returned, and the
  condition of the \<^verbatim>\<open>break\<close>. They name the parts of the loop body for the proofs;
  \<open>projectionLoop_step\<close> below shows that the loop is made of them.
\<close>

definition snapshot ::
  "InvestmentInputs \<Rightarrow> nat \<Rightarrow> jsnum \<Rightarrow> jsnum \<Rightarrow> jsnum \<Rightarrow> jsnum \<Rightarrow> YearlyProjection" where
  "snapshot inputs y stockValue0 cumulativeRent0 cumulativeOwnersCosts0 interestPaid =
     \<lparr> year = y,
       stockValue =
         stockValue0 * (1 + stockAnnualReturn inputs / 100) +
         (yearlyInvestment inputs - annualRent inputs),
       stockCumulativeInvestment =
         initialNetWorth inputs + ((yearlyInvestment inputs - annualRent inputs) * num y),
       rentPaid = cumulativeRent0 + annualRent inputs,
       stockNetWorth =
         stockValue0 * (1 + stockAnnualReturn inputs / 100) +
         (yearlyInvestment inputs - annualRent inputs),
       propertyValue = houseCost inputs * Math_pow (1 + houseGrowthRate inputs / 100) (num y),
       mortgageBalance =
         calculateMortgageBalance (loanAmount inputs) (mortgageRate inputs)
           (monthlyMortgage inputs) (extraAnnualPayment inputs) (num y),
       propertyNetWorth =
         houseCost inputs * Math_pow (1 + houseGrowthRate inputs / 100) (num y) -
         calculateMortgageBalance (loanAmount inputs) (mortgageRate inputs)
           (monthlyMortgage inputs) (extraAnnualPayment inputs) (num y),
       propertyEquity =
         houseCost inputs * Math_pow (1 + houseGrowthRate inputs / 100) (num y) -
         calculateMortgageBalance (loanAmount inputs) (mortgageRate inputs)
           (monthlyMortgage inputs) (extraAnnualPayment inputs) (num y),
       totalInterestPaid = interestPaid,
       ownersCostsPaid = cumulativeOwnersCosts0 + ownersCorp inputs,
       stockTotalCost =
         cumulativeRent0 + annualRent inputs +
         (initialNetWorth inputs * stockAnnualReturn inputs / 100 * num y),
       propertyTotalCost = interestPaid + (cumulativeOwnersCosts0 + ownersCorp inputs) \<rparr>"

definition stops :: "InvestmentInputs \<Rightarrow> nat \<Rightarrow> bool" where
  "stops inputs y =
     (calculateMortgageBalance (loanAmount inputs) (mortgageRate inputs)
        (monthlyMortgage inputs) (extraAnnualPayment inputs) (num y) \<le> 0 \<and>
      payoffTime inputs < num y)"

text \<open>
  The objects that the loop pushes when it is entered at year \<open>y\<close> with the given running
  totals and returns.
\<close>

fun emitted ::
  "InvestmentInputs \<Rightarrow> nat \<Rightarrow> jsnum \<Rightarrow> jsnum \<Rightarrow> jsnum \<Rightarrow> YearlyProjection list \<Rightarrow> bool" where
  "emitted inputs y sv cr co [] = (\<not> num y \<le> maxYears inputs)"
| "emitted inputs y sv cr co (p # ps) =
     (num y \<le> maxYears inputs \<and>
      (\<exists>ip. calculateInterestPaid (loanAmount inputs) (mortgageRate inputs)
               (monthlyMortgage inputs) (extraAnnualPayment inputs) (num y) = Some ip \<and>
            p = snapshot inputs y sv cr co ip) \<and>
      (if stops inputs y then ps = []
       else emitted inputs (Suc y) (stockValue p) (rentPaid p) (ownersCostsPaid p) ps))"

subsection \<open>Parameter sets\<close>

text \<open>
  A parameter set is valid when each of its eight fields is a finite number that is not
  negative; it is finite when each field is a finite number.
\<close>

fun is_finite :: "jsnum \<Rightarrow> bool" where
  "is_finite (Fin x) = True"
| "is_finite a = False"

definition finite_inputs :: "InvestmentInputs \<Rightarrow> bool" where
  "finite_inputs inputs =
     (is_finite (initialNetWorth inputs) \<and> is_finite (yearlyInvestment inputs) \<and>
      is_finite (weeklyRent inputs) \<and> is_finite (stockAnnualReturn inputs) \<and>
      is_finite (houseCost inputs) \<and> is_finite (mortgageRate inputs) \<and>
      is_finite (houseGrowthRate inputs) \<and> is_finite (ownersCorp inputs))"

definition valid_inputs :: "InvestmentInputs \<Rightarrow> bool" where
  "valid_inputs inputs =
     (finite_inputs inputs \<and>
      0 \<le> initialNetWorth inputs \<and> 0 \<le> yearlyInvestment inputs \<and>
      0 \<le> weeklyRent inputs \<and> 0 \<le> stockAnnualReturn inputs \<and>
      0 \<le> houseCost inputs \<and> 0 \<le> mortgageRate inputs \<and>
      0 \<le> houseGrowthRate inputs \<and> 0 \<le> ownersCorp inputs)"

subsection \<open>The formulas on finite values\<close>

text \<open>
  What the amortization functions compute on finite arguments, as real numbers: the monthly
  payment over 360 months, the balance after \<open>m\<close> months of a total monthly payment \<open>T\<close>,
  and the payoff time in years. The lemmas \<open>calculateMortgagePayment_Fin\<close>,
  \<open>calculateMortgageBalance_Fin\<close> and \<open>calculatePayoffTime_Fin\<close> relate them to the functions.
\<close>

definition payment_value :: "real \<Rightarrow> real \<Rightarrow> real" where
  "payment_value L r =
     (if r = 0 then L / 360 else L * (r * (1 + r) ^ 360) / ((1 + r) ^ 360 - 1))"

definition balance_value :: "real \<Rightarrow> real \<Rightarrow> real \<Rightarrow> nat \<Rightarrow> real" where
  "balance_value L r T m =
     (if r = 0 then max 0 (L - T * real m)
      else max 0 (L * (1 + r) ^ m - T * (((1 + r) ^ m - 1) / r)))"

definition payoff_value :: "real \<Rightarrow> real \<Rightarrow> real \<Rightarrow> real" where
  "payoff_value L r T =
     (if r = 0 then L / (T * 12)
      else max (1 / 10) (- ln (1 - L * r / T) / ln (1 + r) / 12))"

subsection \<open>Scenarios\<close>

text \<open>
  The parameter sets that the specification names: Scenario A, Scenario B (A with a yearly
  investment of 20000) and a Scenario C (A with an initial net worth above the house cost),
  and three variants used below: Scenario A and Scenario C with a negative weekly rent, and
  Scenario C with a yearly investment below the ownership costs.
\<close>

definition scenarioA :: InvestmentInputs where
  "scenarioA =
     \<lparr> initialNetWorth = Fin 100000, yearlyInvestment = Fin 35000, weeklyRent = Fin 500,
       stockAnnualReturn = Fin 9.8, houseCost = Fin 500000, mortgageRate = Fin 5.5,
       houseGrowthRate = Fin 3.5, ownersCorp = Fin 5000 \<rparr>"


definition scenarioC :: InvestmentInputs where
  "scenarioC = scenarioA \<lparr> initialNetWorth := Fin 600000 \<rparr>"

definition scenarioA_negative_rent :: InvestmentInputs where
  "scenarioA_negative_rent = scenarioA \<lparr> weeklyRent := Fin (- 500) \<rparr>"


definition scenarioC_negative_rent :: InvestmentInputs where
  "scenarioC_negative_rent = scenarioC \<lparr> weeklyRent := Fin (- 500) \<rparr>"

section \<open>Numbers: evaluation on finite values\<close>

lemma zero_jsnum_Fin [simp]: "(0::jsnum) = Fin 0"
  by (simp add: zero_jsnum_def)

lemma one_jsnum_Fin [simp]: "(1::jsnum) = Fin 1"
  by (simp add: one_jsnum_def)

lemma numeral_jsnum_Fin [simp]: "(numeral n :: jsnum) = Fin (numeral n)"
proof (induct n rule: num.induct)
  case One
  show ?case by (simp add: one_jsnum_def)
next
  case (Bit0 n)
  have "(numeral (num.Bit0 n) :: jsnum) = numeral n + numeral n"
    by (rule numeral_Bit0)
  also have "\<dots> = Fin (numeral n + numeral n)"
    by (simp only: Bit0 plus_jsnum.simps)
  also have "numeral n + numeral n = (numeral (num.Bit0 n) :: real)"
    by (rule numeral_Bit0 [symmetric])
  finally show ?case .
next
  case (Bit1 n)
  have "(numeral (num.Bit1 n) :: jsnum) = numeral n + numeral n + 1"
    by (rule numeral_Bit1)
  also have "\<dots> = Fin (numeral n + numeral n + 1)"
    by (simp only: Bit1 plus_jsnum.simps one_jsnum_def)
  also have "numeral n + numeral n + 1 = (numeral (num.Bit1 n) :: real)"
    by (rule numeral_Bit1 [symmetric])
  finally show ?case .
qed

lemma minus_Fin [simp]: "Fin x - Fin y = Fin (x - y)"
  by (simp add: minus_jsnum_def)

lemma strict_eq_Fin [simp]: "strict_eq (Fin x) (Fin y) = (x = y)"
  by (simp add: strict_eq_def)

lemma Math_max_Fin [simp]: "Math_max (Fin x) (Fin y) = Fin (max x y)"
  by (simp add: Math_max_def max_def)

lemma Math_min_Fin [simp]: "Math_min (Fin x) (Fin y) = Fin (min x y)"
  by (simp add: Math_min_def min_def)



lemma no_loan_not_pos: "h \<le> w \<Longrightarrow> \<not> 0 < h - (w::jsnum)"
  by (cases h; cases w) (simp_all add: minus_jsnum_def)

section \<open>The remaining balance\<close>


text \<open>
  Below 30 years (and for a NaN number of years) the table's copy is the calculation
  module's function.
\<close>

lemma calculateMortgageBalance_table_below_30:
  "\<not> 30 \<le> yearsPaid \<Longrightarrow>
   calculateMortgageBalance_table principal' annualRate monthlyPayment extraPayment yearsPaid =
   calculateMortgageBalance principal' annualRate monthlyPayment extraPayment yearsPaid"
  by (simp add: calculateMortgageBalance_table_def calculateMortgageBalance_def)

text \<open>
  Claim C4. The calculation module's \<^verbatim>\<open>calculateMortgageBalance\<close> is to return exactly 0
  whenever \<^verbatim>\<open>yearsPaid\<close> is at least 30. It has no such branch: with a principal of
  400000, a rate of 0, a monthly payment of 1000 and no extra payment, the balance it
  returns after 30 years is 400000 - 1000 * 360 = 40000, where the copy in the comparison
  table returns 0.
\<close>

theorem calculateMortgageBalance_30_years_not_forced:
  "calculateMortgageBalance (Fin 400000) (Fin 0) (Fin 1000) (Fin 0) (Fin 30) = Fin 40000 \<and>
   calculateMortgageBalance_table (Fin 400000) (Fin 0) (Fin 1000) (Fin 0) (Fin 30) = Fin 0"
  by (simp add: calculateMortgageBalance_def calculateMortgageBalance_table_def)

text \<open>
  Claim C10. The calculation module's \<^verbatim>\<open>calculateMortgageBalance\<close> and the copy in the
  comparison table are to return equal values on every input. After 30 years of a monthly
  payment of 500 on a principal of 200000 at rate 0, the module's function returns 20000 and
  the table's copy returns 0.
\<close>

theorem calculateMortgageBalance_copies_differ:
  "calculateMortgageBalance (Fin 200000) (Fin 0) (Fin 500) (Fin 0) (Fin 30) = Fin 20000 \<and>
   calculateMortgageBalance_table (Fin 200000) (Fin 0) (Fin 500) (Fin 0) (Fin 30) = Fin 0"
  by (simp add: calculateMortgageBalance_def calculateMortgageBalance_table_def)

section \<open>The two loops\<close>

lemma interestLoop_terminates:
  "\<exists>v. interestLoop r T (Fin m) month bal tot = Some v"
proof (induction "nat \<lceil>m\<rceil> - month" arbitrary: month bal tot)
  case 0
  then have "nat \<lceil>m\<rceil> \<le> month" by simp
  then have "m \<le> real month" by simp
  then show ?case
    by (subst interestLoop.simps) simp
next
  case (Suc k)
  then have "k = nat \<lceil>m\<rceil> - Suc month" by simp
  from Suc.hyps(1) [OF this] show ?case
    by (subst interestLoop.simps) (simp add: Let_def)
qed

lemma calculateInterestPaid_terminates:
  "\<exists>v. calculateInterestPaid p a mp e (Fin t) = Some v"
  by (simp add: calculateInterestPaid_def Let_def interestLoop_terminates)

lemma projectionLoop_step:
  "projectionLoop inputs y sv cr co acc =
     (if num y \<le> maxYears inputs then
        (case calculateInterestPaid (loanAmount inputs) (mortgageRate inputs)
                (monthlyMortgage inputs) (extraAnnualPayment inputs) (num y) of
           None \<Rightarrow> None
         | Some ip \<Rightarrow>
             if stops inputs y then Some (acc @ [snapshot inputs y sv cr co ip])
             else projectionLoop inputs (Suc y)
                    (stockValue (snapshot inputs y sv cr co ip))
                    (rentPaid (snapshot inputs y sv cr co ip))
                    (ownersCostsPaid (snapshot inputs y sv cr co ip))
                    (acc @ [snapshot inputs y sv cr co ip]))
      else Some acc)"
  by (subst projectionLoop.simps)
     (auto simp add: Let_def snapshot_def stops_def split: option.split)

lemma projectionLoop_terminates:
  "maxYears inputs \<noteq> PInf \<Longrightarrow> \<exists>ps. projectionLoop inputs y sv cr co acc = Some ps"
proof (cases "maxYears inputs")
  case (Fin m)
  show ?thesis
  proof (induction "nat \<lfloor>m\<rfloor> + 1 - y" arbitrary: y sv cr co acc)
    case 0
    then have "nat \<lfloor>m\<rfloor> < y" by simp
    then have "m < real y"
      by linarith
    with Fin show ?case
      by (subst projectionLoop_step) simp
  next
    case (Suc k)
    then have k: "k = nat \<lfloor>m\<rfloor> + 1 - Suc y" by simp
    obtain ip where ip: "calculateInterestPaid (loanAmount inputs) (mortgageRate inputs)
                (monthlyMortgage inputs) (extraAnnualPayment inputs) (num y) = Some ip"
      using calculateInterestPaid_terminates by blast
    show ?case
      using Suc.hyps(1) [OF k] ip
      by (subst projectionLoop_step) simp
  qed
next
  case PInf
  assume "maxYears inputs \<noteq> PInf"
  with PInf show ?thesis by simp
next
  case NInf
  then show ?thesis by (subst projectionLoop_step) simp
next
  case NaN
  then show ?thesis by (subst projectionLoop_step) simp
qed


lemma projectionLoop_emitted:
  "projectionLoop inputs y sv cr co acc = Some ps \<Longrightarrow>
   \<exists>new. ps = acc @ new \<and> emitted inputs y sv cr co new"
proof (induction inputs y sv cr co acc ps
       rule: projectionLoop.raw_induct [rotated 1, consumes 1, case_names step])
  case (step loop inputs y sv cr co acc ps)
  show ?case
  proof (cases "num y \<le> maxYears inputs")
    case False
    with step(2) show ?thesis by simp
  next
    case True
    show ?thesis
    proof (cases "calculateInterestPaid (loanAmount inputs) (mortgageRate inputs)
                (monthlyMortgage inputs) (extraAnnualPayment inputs) (num y)")
      case None
      with True step(2) show ?thesis by (simp add: Let_def)
    next
      case (Some ip)
      let ?s = "snapshot inputs y sv cr co ip"
      show ?thesis
      proof (cases "stops inputs y")
        case st: True
        with True Some step(2) have "ps = acc @ [?s]"
          by (auto simp add: Let_def snapshot_def stops_def)
        with True Some st show ?thesis by simp
      next
        case st: False
        with True Some step(2)
        have "loop inputs (Suc y) (stockValue ?s) (rentPaid ?s) (ownersCostsPaid ?s) (acc @ [?s]) = Some ps"
          by (auto simp add: Let_def snapshot_def stops_def)
        from step(1) [OF this] obtain new where
          "ps = (acc @ [?s]) @ new"
          "emitted inputs (Suc y) (stockValue ?s) (rentPaid ?s) (ownersCostsPaid ?s) new"
          by blast
        with True Some st have "ps = acc @ (?s # new) \<and> emitted inputs y sv cr co (?s # new)"
          by simp
        then show ?thesis by blast
      qed
    qed
  qed
qed

lemma emitted_year:
  "emitted inputs y sv cr co new \<Longrightarrow> i < length new \<Longrightarrow> year (new ! i) = y + i"
proof (induction new arbitrary: y sv cr co i)
  case Nil
  then show ?case by simp
next
  case (Cons p ps)
  show ?case
  proof (cases i)
    case 0
    with Cons.prems show ?thesis by (auto simp add: snapshot_def)
  next
    case (Suc j)
    with Cons.prems have "j < length ps" "\<not> stops inputs y" by (auto split: if_splits)
    with Cons.prems have "emitted inputs (Suc y) (stockValue p) (rentPaid p) (ownersCostsPaid p) ps"
      by simp
    from Cons.IH [OF this \<open>j < length ps\<close>] Suc show ?thesis by simp
  qed
qed

lemma emitted_fields:
  "emitted inputs y sv cr co new \<Longrightarrow> i < length new \<Longrightarrow>
   propertyValue (new ! i) =
     houseCost inputs * Math_pow (1 + houseGrowthRate inputs / 100) (num (y + i)) \<and>
   mortgageBalance (new ! i) =
     calculateMortgageBalance (loanAmount inputs) (mortgageRate inputs)
       (monthlyMortgage inputs) (extraAnnualPayment inputs) (num (y + i))"
proof (induction new arbitrary: y sv cr co i)
  case Nil
  then show ?case by simp
next
  case (Cons p ps)
  show ?case
  proof (cases i)
    case 0
    with Cons.prems show ?thesis by (auto simp add: snapshot_def)
  next
    case (Suc j)
    with Cons.prems have "j < length ps" "\<not> stops inputs y" by (auto split: if_splits)
    with Cons.prems have "emitted inputs (Suc y) (stockValue p) (rentPaid p) (ownersCostsPaid p) ps"
      by simp
    from Cons.IH [OF this \<open>j < length ps\<close>] Suc show ?thesis by simp
  qed
qed

lemma emitted_stock:
  "emitted inputs y sv cr co new \<Longrightarrow> i < length new \<Longrightarrow>
   stockValue (new ! i) =
     (if i = 0 then sv else stockValue (new ! (i - 1))) *
       (1 + stockAnnualReturn inputs / 100) +
     (yearlyInvestment inputs - weeklyRent inputs * 52)"
proof (induction new arbitrary: y sv cr co i)
  case Nil
  then show ?case by simp
next
  case (Cons p ps)
  show ?case
  proof (cases i)
    case 0
    with Cons.prems show ?thesis by (auto simp add: snapshot_def annualRent_def)
  next
    case (Suc j)
    with Cons.prems have "j < length ps" "\<not> stops inputs y" by (auto split: if_splits)
    with Cons.prems have "emitted inputs (Suc y) (stockValue p) (rentPaid p) (ownersCostsPaid p) ps"
      by simp
    from Cons.IH [OF this \<open>j < length ps\<close>] Suc show ?thesis
      by (cases j) simp_all
  qed
qed

lemma emitted_no_stop:
  "emitted inputs y sv cr co new \<Longrightarrow> Suc i < length new \<Longrightarrow> \<not> stops inputs (y + i)"
proof (induction new arbitrary: y sv cr co i)
  case Nil
  then show ?case by simp
next
  case (Cons p ps)
  from Cons.prems have ns: "\<not> stops inputs y" by (auto split: if_splits)
  show ?case
  proof (cases i)
    case 0
    with ns show ?thesis by simp
  next
    case (Suc j)
    with Cons.prems have j: "Suc j < length ps" by simp
    from Cons.prems ns
    have "emitted inputs (Suc y) (stockValue p) (rentPaid p) (ownersCostsPaid p) ps"
      by simp
    from Cons.IH [OF this j] Suc show ?thesis by simp
  qed
qed

lemma emitted_length:
  "emitted inputs y sv cr co new \<Longrightarrow> stops inputs n \<Longrightarrow>
   (\<And>y'. y \<le> y' \<Longrightarrow> y' < n \<Longrightarrow> \<not> stops inputs y') \<Longrightarrow>
   (\<And>y'. y' \<le> n \<Longrightarrow> num y' \<le> maxYears inputs) \<Longrightarrow> y \<le> n \<Longrightarrow>
   length new = Suc (n - y)"
proof (induction "n - y" arbitrary: y sv cr co new)
  case 0
  then have "y = n" by simp
  with 0 show ?case by (cases new) auto
next
  case (Suc k)
  then have "y < n" by simp
  with Suc.prems have ns: "\<not> stops inputs y" and le: "num y \<le> maxYears inputs" by simp_all
  with Suc.prems(1) obtain p ps where new: "new = p # ps" by (cases new) auto
  with Suc.prems(1) ns
  have em: "emitted inputs (Suc y) (stockValue p) (rentPaid p) (ownersCostsPaid p) ps" by simp
  have "length ps = Suc (n - Suc y)"
  proof (rule Suc.hyps(1) [OF _ em Suc.prems(2)])
    show "k = n - Suc y" using Suc.hyps(2) by simp
    show "\<And>y'. Suc y \<le> y' \<Longrightarrow> y' < n \<Longrightarrow> \<not> stops inputs y'" using Suc.prems(3) by simp
    show "\<And>y'. y' \<le> n \<Longrightarrow> num y' \<le> maxYears inputs" using Suc.prems(4) by simp
    show "Suc y \<le> n" using \<open>y < n\<close> by simp
  qed
  with new \<open>y < n\<close> show ?case by simp
qed

text \<open>
  Further facts on the sequence that the loop pushes: every year of it is within the bound of
  the loop; after its last snapshot the loop was left by the \<^verbatim>\<open>break\<close> or by its bound;
  it is at least as long as the years that the loop is sure to run; and its running totals
  are the sums that the loop body computes. With \<open>emitted_stops\<close>, the condition of the
  \<^verbatim>\<open>break\<close> can be read off a snapshot.
\<close>

lemma emitted_bound:
  "emitted inputs y sv cr co new \<Longrightarrow> i < length new \<Longrightarrow> num (y + i) \<le> maxYears inputs"
proof (induction new arbitrary: y sv cr co i)
  case Nil
  then show ?case by simp
next
  case (Cons p ps)
  show ?case
  proof (cases i)
    case 0
    with Cons.prems show ?thesis by simp
  next
    case (Suc j)
    with Cons.prems have "j < length ps" "\<not> stops inputs y" by (auto split: if_splits)
    with Cons.prems have "emitted inputs (Suc y) (stockValue p) (rentPaid p) (ownersCostsPaid p) ps"
      by simp
    from Cons.IH [OF this \<open>j < length ps\<close>] Suc show ?thesis by simp
  qed
qed

lemma emitted_last:
  "emitted inputs y sv cr co new \<Longrightarrow> new \<noteq> [] \<Longrightarrow>
   stops inputs (y + length new - 1) \<or> \<not> num (y + length new) \<le> maxYears inputs"
proof (induction new arbitrary: y sv cr co)
  case Nil
  then show ?case by simp
next
  case (Cons p ps)
  show ?case
  proof (cases "stops inputs y")
    case True
    with Cons.prems have "ps = []" by simp
    with True show ?thesis by simp
  next
    case False
    with Cons.prems
    have em: "emitted inputs (Suc y) (stockValue p) (rentPaid p) (ownersCostsPaid p) ps"
      by simp
    show ?thesis
    proof (cases "ps = []")
      case True
      with em show ?thesis by simp
    next
      case ne: False
      from Cons.IH [OF em ne] show ?thesis by simp
    qed
  qed
qed

lemma emitted_length_ge:
  "emitted inputs y sv cr co new \<Longrightarrow>
   (\<And>y'. y \<le> y' \<Longrightarrow> y' < n \<Longrightarrow> \<not> stops inputs y') \<Longrightarrow>
   (\<And>y'. y \<le> y' \<Longrightarrow> y' \<le> n \<Longrightarrow> num y' \<le> maxYears inputs) \<Longrightarrow> y \<le> n \<Longrightarrow>
   n - y < length new"
proof (induction "n - y" arbitrary: y sv cr co new)
  case 0
  then have "y = n" by simp
  with 0 show ?case by (cases new) auto
next
  case (Suc k)
  then have "y < n" by simp
  with Suc.prems have ns: "\<not> stops inputs y" and le: "num y \<le> maxYears inputs" by simp_all
  with Suc.prems(1) obtain p ps where new: "new = p # ps" by (cases new) auto
  with Suc.prems(1) ns
  have em: "emitted inputs (Suc y) (stockValue p) (rentPaid p) (ownersCostsPaid p) ps" by simp
  have "n - Suc y < length ps"
  proof (rule Suc.hyps(1) [OF _ em])
    show "k = n - Suc y" using Suc.hyps(2) by simp
    show "\<And>y'. Suc y \<le> y' \<Longrightarrow> y' < n \<Longrightarrow> \<not> stops inputs y'" using Suc.prems(2) by simp
    show "\<And>y'. Suc y \<le> y' \<Longrightarrow> y' \<le> n \<Longrightarrow> num y' \<le> maxYears inputs" using Suc.prems(3) by simp
    show "Suc y \<le> n" using \<open>y < n\<close> by simp
  qed
  with new \<open>y < n\<close> show ?case by simp
qed

lemma emitted_totals:
  "emitted inputs y sv cr co new \<Longrightarrow> i < length new \<Longrightarrow>
   rentPaid (new ! i) =
     (if i = 0 then cr else rentPaid (new ! (i - 1))) + weeklyRent inputs * 52 \<and>
   ownersCostsPaid (new ! i) =
     (if i = 0 then co else ownersCostsPaid (new ! (i - 1))) + ownersCorp inputs \<and>
   stockCumulativeInvestment (new ! i) =
     initialNetWorth inputs +
     (yearlyInvestment inputs - weeklyRent inputs * 52) * num (y + i)"
proof (induction new arbitrary: y sv cr co i)
  case Nil
  then show ?case by simp
next
  case (Cons p ps)
  show ?case
  proof (cases i)
    case 0
    with Cons.prems show ?thesis by (auto simp add: snapshot_def annualRent_def)
  next
    case (Suc j)
    with Cons.prems have "j < length ps" "\<not> stops inputs y" by (auto split: if_splits)
    with Cons.prems have "emitted inputs (Suc y) (stockValue p) (rentPaid p) (ownersCostsPaid p) ps"
      by simp
    from Cons.IH [OF this \<open>j < length ps\<close>] Suc show ?thesis
      by (cases j) simp_all
  qed
qed

lemma emitted_stops:
  assumes "emitted inputs y sv cr co new" "i < length new"
  shows "(mortgageBalance (new ! i) \<le> 0 \<and> payoffTime inputs < num (year (new ! i))) \<longleftrightarrow>
         stops inputs (y + i)"
  using emitted_fields [OF assms] emitted_year [OF assms]
  by (simp add: stops_def)

section \<open>The amortization formulas on finite values\<close>

lemma power_360_gt_1: "0 < r \<Longrightarrow> 1 < (1 + r :: real) ^ 360"
  by (rule one_less_power) simp_all

lemma calculateMortgagePayment_Fin:
  assumes "0 \<le> a"
  shows "calculateMortgagePayment (Fin L) (Fin a) 30 = Fin (payment_value L (a / 100 / 12))"
proof (cases "a = 0")
  case True
  then show ?thesis by (simp add: calculateMortgagePayment_def payment_value_def)
next
  case False
  with assms have "0 < a / 1200" by simp
  from power_360_gt_1 [OF this] have "(1 + a / 1200) ^ 360 \<noteq> 1" by simp
  with False assms show ?thesis
    by (simp add: calculateMortgagePayment_def payment_value_def Let_def)
qed

lemma payment_gt_interest:
  assumes "0 < L" "0 \<le> r"
  shows "L * r < payment_value L r"
proof (cases "r = 0")
  case True
  with assms show ?thesis by (simp add: payment_value_def)
next
  case False
  with assms have r: "0 < r" by simp
  let ?q = "(1 + r) ^ 360"
  have q: "1 < ?q" by (rule power_360_gt_1 [OF r])
  then have "1 < ?q / (?q - 1)" by (simp add: field_simps)
  with assms r have "L * r * 1 < L * r * (?q / (?q - 1))"
    by (intro mult_strict_left_mono) simp_all
  with False show ?thesis by (simp add: payment_value_def)
qed


lemma Math_pow_Fin_nat:
  "0 < x \<Longrightarrow> Math_pow (Fin x) (Fin (real n)) = Fin (x ^ n)"
  by (cases "n = 0") (simp_all add: powr_realpow)

lemma calculateMortgageBalance_Fin:
  assumes "0 \<le> a"
  shows "calculateMortgageBalance (Fin L) (Fin a) (Fin P) (Fin e) (num y) =
         Fin (balance_value L (a / 100 / 12) (P + e / 12) (y * 12))"
proof (cases "a = 0")
  case True
  then show ?thesis by (simp add: calculateMortgageBalance_def balance_value_def)
next
  case False
  with assms have "0 < 1 + a / 1200" by simp
  from Math_pow_Fin_nat [OF this, of "y * 12"]
  have "Math_pow (Fin (1 + a / 1200)) (Fin (real y * 12)) = Fin ((1 + a / 1200) ^ (y * 12))"
    by simp
  with False show ?thesis
    by (simp add: calculateMortgageBalance_def balance_value_def Let_def)
qed

lemma balance_value_nonneg: "0 \<le> balance_value L r T m"
  by (simp add: balance_value_def)

lemma balance_raw_eq:
  "L * (1 + r) ^ m - T * (((1 + r) ^ m - 1) / r) = (L - T / r) * (1 + r :: real) ^ m + T / r"
  by (simp add: algebra_simps diff_divide_distrib)

lemma balance_value_antimono:
  assumes "0 \<le> r" "L * r < T" "m \<le> n"
  shows "balance_value L r T n \<le> balance_value L r T m"
proof (cases "r = 0")
  case True
  with assms have "0 < T" by simp
  with assms(3) have "T * real m \<le> T * real n" by simp
  with True show ?thesis by (simp add: balance_value_def)
next
  case False
  with assms have r: "0 < r" by simp
  with assms(2) have "L < T / r" by (simp add: field_simps)
  then have neg: "L - T / r \<le> 0" by simp
  from r assms(3) have "(1 + r) ^ m \<le> (1 + r) ^ n" by (intro power_increasing) simp_all
  from mult_left_mono_neg [OF this neg]
  have "(L - T / r) * (1 + r) ^ n + T / r \<le> (L - T / r) * (1 + r) ^ m + T / r" by simp
  then have "L * (1 + r) ^ n - T * (((1 + r) ^ n - 1) / r) \<le>
             L * (1 + r) ^ m - T * (((1 + r) ^ m - 1) / r)"
    by (simp only: balance_raw_eq)
  then have "max 0 (L * (1 + r) ^ n - T * (((1 + r) ^ n - 1) / r)) \<le>
             max 0 (L * (1 + r) ^ m - T * (((1 + r) ^ m - 1) / r))"
    by (rule max.mono [OF order_refl])
  with False show ?thesis
    by (simp only: balance_value_def if_False)
qed

lemma payment_value_amortizes:
  assumes "0 < r"
  shows "L * (1 + r) ^ 360 - payment_value L r * (((1 + r) ^ 360 - 1) / r) = 0"
proof -
  from power_360_gt_1 [OF assms] have "(1 + r) ^ 360 - 1 \<noteq> 0" by simp
  with assms show ?thesis by (simp add: payment_value_def field_simps)
qed

lemma balance_value_360:
  assumes "0 \<le> r" "payment_value L r \<le> T"
  shows "balance_value L r T 360 = 0"
proof (cases "r = 0")
  case True
  with assms(2) have "L \<le> T * 360" by (simp add: payment_value_def)
  with True show ?thesis by (simp add: balance_value_def)
next
  case False
  with assms have r: "0 < r" by simp
  let ?c = "((1 + r) ^ 360 - 1) / r"
  from power_360_gt_1 [OF r] r have "0 \<le> ?c" by simp
  with assms(2) have "payment_value L r * ?c \<le> T * ?c" by (rule mult_right_mono)
  with payment_value_amortizes [OF r, of L] have "L * (1 + r) ^ 360 - T * ?c \<le> 0" by simp
  with False show ?thesis by (simp add: balance_value_def)
qed


lemma Math_log_Fin: "0 < x \<Longrightarrow> Math_log (Fin x) = Fin (ln x)"
  by simp

lemma calculatePayoffTime_Fin:
  assumes "0 \<le> a" "0 < e" "L * (a / 100 / 12) < P + e / 12" "0 < P + e / 12"
  shows "calculatePayoffTime (Fin L) (Fin a) (Fin P) (Fin e) =
         Fin (payoff_value L (a / 100 / 12) (P + e / 12))"
proof -
  define r where "r = a / 100 / 12"
  define T where "T = P + e / 12"
  have rj: "Fin a / 100 / 12 = Fin r" by (simp add: r_def)
  have Tj: "Fin P + Fin e / 12 = Fin T" by (simp add: T_def)
  from assms have T: "0 < T" "T \<noteq> 0" "T * 12 \<noteq> 0" and LT: "L * r < T" and r0: "0 \<le> r"
    by (simp_all add: r_def T_def)
  have e: "\<not> Fin e \<le> 0" using assms(2) by simp
  show ?thesis
  proof (cases "r = 0")
    case True
    have "Fin L / (Fin T * 12) = Fin (L / (T * 12))"
      using T(3) by simp
    with True e show ?thesis
      unfolding calculatePayoffTime_def Let_def rj Tj payoff_value_def r_def [symmetric] T_def [symmetric]
      by simp
  next
    case False
    with r0 have r: "0 < r" by simp
    define x where "x = 1 - L * r / T"
    from LT T have "L * r / T < 1" by simp
    then have x: "0 < x" by (simp add: x_def)
    from r have r1: "0 < 1 + r" by simp
    from r have ln1: "ln (1 + r) \<noteq> 0" by simp
    have "1 - Fin L * Fin r / Fin T = Fin x"
      using T(2) by (simp add: x_def)
    moreover have "Math_log (Fin x) = Fin (ln x)" by (rule Math_log_Fin [OF x])
    moreover have "Math_log (1 + Fin r) = Fin (ln (1 + r))" using r1 by simp
    moreover have "- Fin (ln x) / Fin (ln (1 + r)) = Fin (- ln x / ln (1 + r))"
      using ln1 by simp
    moreover have "Math_max (Fin (1 / 10)) (Fin (- ln x / ln (1 + r)) / 12) =
                   Fin (max (1 / 10) (- ln x / ln (1 + r) / 12))"
      by simp
    ultimately show ?thesis
      using False e
      unfolding calculatePayoffTime_def Let_def rj Tj payoff_value_def r_def [symmetric] T_def [symmetric]
      by (simp only: x_def [symmetric] strict_eq_Fin zero_jsnum_Fin if_False)
  qed
qed

lemma balance_after_payoff:
  assumes "0 < L" "0 \<le> r" "L * r < T" "payoff_value L r T < real y"
  shows "balance_value L r T (y * 12) = 0"
proof (cases "r = 0")
  case True
  with assms have T: "0 < T" by simp
  from True assms(4) have "L / (T * 12) < real y" by (simp add: payoff_value_def)
  with T have "L < T * (real y * 12)" by (simp add: field_simps)
  with True show ?thesis by (simp add: balance_value_def)
next
  case False
  with assms have r: "0 < r" by simp
  with assms have T: "0 < T" by (meson mult_pos_pos less_trans)
  define x where "x = 1 - L * r / T"
  define Q where "Q = (1 + r) ^ (y * 12)"
  from assms(3) T have "L * r / T < 1" by simp
  then have x: "0 < x" by (simp add: x_def)
  from r have Q: "0 < Q" by (simp add: Q_def)
  from r have ln: "0 < ln (1 + r)" by simp
  from False assms(4) have "- ln x / ln (1 + r) / 12 < real y"
    by (simp add: payoff_value_def x_def)
  with ln have "- ln x < real (y * 12) * ln (1 + r)" by (simp add: field_simps)
  also have "\<dots> = ln Q" using r by (simp add: ln_realpow Q_def)
  finally have "ln (1 / x) < ln Q" using x by (simp add: ln_div)
  with x Q have "1 / x < Q" by (simp add: ln_less_cancel_iff)
  with x have "1 < x * Q" by (simp add: field_simps)
  then have "T * 1 < T * (x * Q)" using T by (intro mult_strict_left_mono)
  also have "T * (x * Q) = (T - L * r) * Q" using T by (simp add: field_simps x_def)
  finally have "T - (T - L * r) * Q < 0" by simp
  then have "(T - (T - L * r) * Q) / r < 0" using r by (rule divide_neg_pos)
  also have "(T - (T - L * r) * Q) / r = L * Q - T * ((Q - 1) / r)"
    using r by (simp add: field_simps)
  finally have "L * Q - T * ((Q - 1) / r) < 0" .
  with False show ?thesis by (simp add: balance_value_def Q_def)
qed

lemma Math_pow_Fin_num: "Math_pow (Fin x) (num n) = Fin (x ^ n)"
proof (cases "n = 0")
  case True
  then show ?thesis by simp
next
  case False
  then show ?thesis
    by (cases "0 < x") (simp_all add: powr_realpow)
qed

lemma balance_value_no_loan:
  assumes "L \<le> 0" "0 \<le> T" "0 \<le> r"
  shows "balance_value L r T m = 0"
proof (cases "r = 0")
  case True
  from assms have "0 \<le> T * real m" by simp
  with assms have "L - T * real m \<le> 0" by linarith
  then have "max 0 (L - T * real m) = 0" by (rule max_absorb1)
  with True show ?thesis by (simp add: balance_value_def)
next
  case False
  with assms have r: "0 < r" by simp
  then have "1 \<le> (1 + r) ^ m" by (intro one_le_power) simp
  with r assms have "0 \<le> T * (((1 + r) ^ m - 1) / r)" by simp
  moreover from assms r have "L * (1 + r) ^ m \<le> 0"
    by (intro mult_nonpos_nonneg) simp_all
  ultimately have "L * (1 + r) ^ m - T * (((1 + r) ^ m - 1) / r) \<le> 0" by linarith
  then have "max 0 (L * (1 + r) ^ m - T * (((1 + r) ^ m - 1) / r)) = 0" by (rule max_absorb1)
  with False show ?thesis by (simp add: balance_value_def)
qed

lemma payoff_value_pos:
  assumes "0 < L" "0 < T"
  shows "0 < payoff_value L r T"
  using assms by (simp add: payoff_value_def max_def)


lemma is_finite_iff: "is_finite a \<longleftrightarrow> (\<exists>x. a = Fin x)"
  by (cases a) simp_all

lemma calculatePayoffTime_no_extra:
  "calculatePayoffTime (Fin L) (Fin a) (Fin P) (Fin 0) = Fin 30"
  by (simp add: calculatePayoffTime_def)

lemma constants_Fin:
  assumes "finite_inputs inputs" "0 \<le> mortgageRate inputs"
  obtains L a P e pt where
    "loanAmount inputs = Fin L" "mortgageRate inputs = Fin a" "0 \<le> a"
    "monthlyMortgage inputs = Fin P" "extraAnnualPayment inputs = Fin e" "0 \<le> e"
    "payoffTime inputs = Fin pt" "0 \<le> pt"
    "maxYears inputs = Fin (max 5 (of_int \<lceil>pt\<rceil> + 2))"
    "P = (if 0 < L then payment_value L (a / 100 / 12) else 0)"
    "pt = (if 0 < L then (if e = 0 then 30 else payoff_value L (a / 100 / 12) (P + e / 12))
           else 0)"
proof -
  from assms(1) obtain h w a yi oc where
    f: "houseCost inputs = Fin h" "initialNetWorth inputs = Fin w" "mortgageRate inputs = Fin a"
       "yearlyInvestment inputs = Fin yi" "ownersCorp inputs = Fin oc"
    unfolding finite_inputs_def is_finite_iff by blast
  with assms(2) have a: "0 \<le> a" by simp
  define L where "L = h - w"
  define r where "r = a / 100 / 12"
  define P where "P = (if 0 < L then payment_value L r else 0)"
  define e where "e = max 0 (yi - (P * 12 + oc))"
  define pt where "pt = (if 0 < L then (if e = 0 then 30 else payoff_value L r (P + e / 12)) else 0)"
  have L: "loanAmount inputs = Fin L" by (simp add: loanAmount_def f L_def)
  have P: "monthlyMortgage inputs = Fin P"
    using calculateMortgagePayment_Fin [OF a, of L]
    by (simp add: monthlyMortgage_def L P_def r_def f)
  have e: "extraAnnualPayment inputs = Fin e"
    by (simp add: extraAnnualPayment_def annualMortgageCosts_def P f e_def)
  have e0: "0 \<le> e" by (simp add: e_def)
  from a have r0: "0 \<le> r" by (simp add: r_def)
  have pt: "payoffTime inputs = Fin pt"
  proof (cases "0 < L")
    case False
    then show ?thesis by (simp add: payoffTime_def L pt_def)
  next
    case True
    show ?thesis
    proof (cases "e = 0")
      case e: True
      with True show ?thesis
        by (simp add: payoffTime_def L P \<open>extraAnnualPayment inputs = Fin e\<close> f pt_def
              calculatePayoffTime_no_extra)
    next
      case False
      with e0 have epos: "0 < e" by simp
      from payment_gt_interest [OF True r0] True have "L * r < P" by (simp add: P_def)
      with epos have 1: "L * (a / 100 / 12) < P + e / 12" by (simp add: r_def)
      from True r0 have "0 \<le> L * r" by simp
      with \<open>L * r < P\<close> epos have 2: "0 < P + e / 12" by simp
      from calculatePayoffTime_Fin [OF a epos 1 2] True False show ?thesis
        by (simp add: payoffTime_def L P e f pt_def r_def)
    qed
  qed
  have pt0: "0 \<le> pt"
  proof (cases "0 < L \<and> e \<noteq> 0")
    case True
    with e0 have "0 < e" by simp
    from payment_gt_interest [OF _ r0, of L] True have "L * r < P" by (simp add: P_def)
    moreover from True r0 have "0 \<le> L * r" by simp
    ultimately have "0 < P + e / 12" using \<open>0 < e\<close> by simp
    with True payoff_value_pos [of L "P + e / 12" r] show ?thesis by (simp add: pt_def)
  next
    case False
    then show ?thesis by (auto simp add: pt_def)
  qed
  have my: "maxYears inputs = Fin (max 5 (of_int \<lceil>pt\<rceil> + 2))"
    by (simp add: maxYears_def pt)
  show thesis
    by (rule that [OF L f(3) a P e e0 pt pt0 my]) (simp_all add: P_def pt_def r_def)
qed

section \<open>The projection on finite inputs\<close>

lemma balance_value_at_break:
  assumes r: "0 \<le> r" and e: "0 \<le> e"
    and P: "P = (if 0 < L then payment_value L r else 0)"
    and pt: "pt = (if 0 < L then (if e = 0 then 30 else payoff_value L r (P + e / 12)) else 0)"
    and y: "pt < real y"
  shows "balance_value L r (P + e / 12) (y * 12) = 0"
proof (cases "0 < L")
  case False
  with P e have "L \<le> 0" "0 \<le> P + e / 12" by simp_all
  then show ?thesis using r by (rule balance_value_no_loan)
next
  case True
  from payment_gt_interest [OF True r] True P have LP: "L * r < P" by simp
  with e have LT: "L * r < P + e / 12" by simp
  show ?thesis
  proof (cases "e = 0")
    case False
    with True pt y have "payoff_value L r (P + e / 12) < real y" by simp
    from balance_after_payoff [OF True r LT this] show ?thesis .
  next
    case e0: True
    with True pt y have "360 \<le> y * 12" by simp
    from balance_value_antimono [OF r LT this]
    have "balance_value L r (P + e / 12) (y * 12) \<le> balance_value L r (P + e / 12) 360" .
    also have "\<dots> = 0"
      using True P e by (intro balance_value_360 [OF r]) simp
    finally show ?thesis using balance_value_nonneg [of L r "P + e / 12" "y * 12"] by simp
  qed
qed

lemma stops_Fin:
  assumes "loanAmount inputs = Fin L" "mortgageRate inputs = Fin a" "0 \<le> a"
    "monthlyMortgage inputs = Fin P" "extraAnnualPayment inputs = Fin e"
    "payoffTime inputs = Fin pt"
  shows "stops inputs y \<longleftrightarrow>
         balance_value L (a / 100 / 12) (P + e / 12) (y * 12) \<le> 0 \<and> pt < real y"
  using assms calculateMortgageBalance_Fin [OF assms(3), of L P e y]
  by (simp add: stops_def)

lemma break_year:
  assumes "finite_inputs inputs" "0 \<le> mortgageRate inputs" "payoffTime inputs = Fin pt"
  shows "stops inputs (nat \<lfloor>pt\<rfloor> + 1)"
    and "y' < nat \<lfloor>pt\<rfloor> + 1 \<Longrightarrow> \<not> stops inputs y'"
    and "y' \<le> nat \<lfloor>pt\<rfloor> + 1 \<Longrightarrow> num y' \<le> maxYears inputs"
proof -
  from assms(1,2) obtain L a P e pt' where c:
    "loanAmount inputs = Fin L" "mortgageRate inputs = Fin a" "0 \<le> a"
    "monthlyMortgage inputs = Fin P" "extraAnnualPayment inputs = Fin e" "0 \<le> e"
    "payoffTime inputs = Fin pt'" "0 \<le> pt'"
    "maxYears inputs = Fin (max 5 (of_int \<lceil>pt'\<rceil> + 2))"
    "P = (if 0 < L then payment_value L (a / 100 / 12) else 0)"
    "pt' = (if 0 < L then (if e = 0 then 30 else payoff_value L (a / 100 / 12) (P + e / 12))
           else 0)"
    by (rule constants_Fin)
  with assms(3) have [simp]: "pt' = pt" by simp
  define n where "n = nat \<lfloor>pt\<rfloor> + 1"
  from c(8) have pt0: "0 \<le> pt" by simp
  then have n: "real n = of_int \<lfloor>pt\<rfloor> + 1" by (simp add: n_def)
  then have lt: "pt < real n" by linarith
  from c(3) have r: "0 \<le> a / 100 / 12" by simp
  note st = stops_Fin [OF c(1,2,3,4,5,7)]
  show "stops inputs (nat \<lfloor>pt\<rfloor> + 1)"
    using balance_value_at_break [OF r c(6,10,11), of n] lt by (simp add: st n_def)
  show "\<not> stops inputs y'" if "y' < nat \<lfloor>pt\<rfloor> + 1"
  proof -
    from that pt0 have "\<not> pt < real y'" by linarith
    then show ?thesis by (simp add: st)
  qed
  show "num y' \<le> maxYears inputs" if "y' \<le> nat \<lfloor>pt\<rfloor> + 1"
  proof -
    from that have "real y' \<le> real n" by (simp add: n_def)
    also have "\<dots> \<le> of_int \<lceil>pt\<rceil> + 2" using n by linarith
    finally show ?thesis by (simp add: c(9))
  qed
qed

lemma maxYears_finite:
  assumes "finite_inputs inputs" "0 \<le> mortgageRate inputs"
  shows "maxYears inputs \<noteq> PInf"
proof -
  from assms obtain L a P e pt where
    "loanAmount inputs = Fin L" "mortgageRate inputs = Fin a" "0 \<le> a"
    "monthlyMortgage inputs = Fin P" "extraAnnualPayment inputs = Fin e" "0 \<le> e"
    "payoffTime inputs = Fin pt" "0 \<le> pt"
    "maxYears inputs = Fin (max 5 (of_int \<lceil>pt\<rceil> + 2))"
    by (rule constants_Fin)
  then show ?thesis by simp
qed

lemma projection_run:
  assumes "finite_inputs inputs" "0 \<le> mortgageRate inputs" "payoffTime inputs = Fin pt"
  shows "\<exists>ps. calculateProjections inputs = Some ps \<and>
              emitted inputs 1 (initialNetWorth inputs) 0 0 ps \<and>
              length ps = nat \<lfloor>pt\<rfloor> + 1"
proof -
  from maxYears_finite [OF assms(1,2)]
  obtain ps where ps: "projectionLoop inputs 1 (initialNetWorth inputs) 0 0 [] = Some ps"
    using projectionLoop_terminates by blast
  from projectionLoop_emitted [OF this]
  have em: "emitted inputs 1 (initialNetWorth inputs) 0 0 ps" by simp
  have "length ps = Suc (nat \<lfloor>pt\<rfloor> + 1 - 1)"
    by (rule emitted_length [OF em break_year [OF assms]]) simp_all
  with ps em show ?thesis by (simp add: calculateProjections_def)
qed

lemma projections_exist:
  assumes "finite_inputs inputs" "0 \<le> mortgageRate inputs"
  obtains ps pt where
    "calculateProjections inputs = Some ps"
    "emitted inputs 1 (initialNetWorth inputs) 0 0 ps"
    "payoffTime inputs = Fin pt" "0 \<le> pt" "length ps = nat \<lfloor>pt\<rfloor> + 1"
proof -
  from assms obtain L a P e pt where
    "loanAmount inputs = Fin L" "mortgageRate inputs = Fin a" "0 \<le> a"
    "monthlyMortgage inputs = Fin P" "extraAnnualPayment inputs = Fin e" "0 \<le> e"
    "payoffTime inputs = Fin pt" "0 \<le> pt"
    by (rule constants_Fin)
  with projection_run [OF assms, of pt] that show thesis by blast
qed

lemma calculateProjections_emitted:
  "calculateProjections inputs = Some ps \<Longrightarrow> emitted inputs 1 (initialNetWorth inputs) 0 0 ps"
  using projectionLoop_emitted [of inputs 1 "initialNetWorth inputs" 0 0 "[]" ps]
  by (simp add: calculateProjections_def)

lemma scenarioA_finite: "finite_inputs scenarioA \<and> 0 \<le> mortgageRate scenarioA"
  by (simp add: scenarioA_def finite_inputs_def)

section \<open>The stock path\<close>

text \<open>
  Claim C7. In every returned sequence the snapshot at index \<open>i\<close> is the one of year
  \<open>i + 1\<close>, so the years start at 1 and increase by 1, and its \<open>stockValue\<close> is the previous
  stock value (the initial net worth for the first year) grown by the stock return, plus the
  yearly investment less 52 weeks of rent, with no floor on that contribution. For Scenario A
  the engine returns a sequence whose first snapshot is year 1 with a stock value of
  100000 * 1.098 + (35000 - 26000) = 118800.
\<close>

theorem stock_path:
  "(calculateProjections inputs = Some ps \<and> i < length ps \<longrightarrow>
      year (ps ! i) = i + 1 \<and>
      stockValue (ps ! i) =
        (if i = 0 then initialNetWorth inputs else stockValue (ps ! (i - 1))) *
          (1 + stockAnnualReturn inputs / 100) +
        (yearlyInvestment inputs - weeklyRent inputs * 52)) \<and>
   (\<exists>ps. calculateProjections scenarioA = Some ps \<and> ps \<noteq> [] \<and>
         year (ps ! 0) = 1 \<and> stockValue (ps ! 0) = Fin 118800)"
proof (intro conjI impI)
  assume a: "calculateProjections inputs = Some ps \<and> i < length ps"
  then have em: "emitted inputs 1 (initialNetWorth inputs) 0 0 ps"
    by (intro calculateProjections_emitted) simp
  from emitted_year [OF em, of i] a show "year (ps ! i) = i + 1" by simp
  from emitted_stock [OF em, of i] a
  show "stockValue (ps ! i) =
        (if i = 0 then initialNetWorth inputs else stockValue (ps ! (i - 1))) *
          (1 + stockAnnualReturn inputs / 100) +
        (yearlyInvestment inputs - weeklyRent inputs * 52)" by simp
next
  have "finite_inputs scenarioA" "0 \<le> mortgageRate scenarioA"
    using scenarioA_finite by simp_all
  then obtain ps pt where ps:
    "calculateProjections scenarioA = Some ps"
    "emitted scenarioA 1 (initialNetWorth scenarioA) 0 0 ps"
    "payoffTime scenarioA = Fin pt" "0 \<le> pt"
    "length ps = nat \<lfloor>pt\<rfloor> + 1"
    by (rule projections_exist)
  then have len: "0 < length ps" by simp
  from emitted_year [OF ps(2) len] have "year (ps ! 0) = 1" by simp
  moreover from emitted_stock [OF ps(2) len] have "stockValue (ps ! 0) = Fin 118800"
    by (simp add: scenarioA_def)
  ultimately have "calculateProjections scenarioA = Some ps \<and> ps \<noteq> [] \<and>
         year (ps ! 0) = 1 \<and> stockValue (ps ! 0) = Fin 118800"
    using ps(1) len by simp
  then show "\<exists>ps. calculateProjections scenarioA = Some ps \<and> ps \<noteq> [] \<and>
         year (ps ! 0) = 1 \<and> stockValue (ps ! 0) = Fin 118800" ..
qed

theorem stock_path_witness:
  "\<exists>ps. calculateProjections scenarioA = Some ps \<and> 0 < length ps \<and>
        year (ps ! 0) = 0 + 1 \<and>
        stockValue (ps ! 0) =
          initialNetWorth scenarioA * (1 + stockAnnualReturn scenarioA / 100) +
          (yearlyInvestment scenarioA - weeklyRent scenarioA * 52)"
proof -
  from stock_path [THEN conjunct2] obtain ps where
    ps: "calculateProjections scenarioA = Some ps" "ps \<noteq> []" by blast
  then have "calculateProjections scenarioA = Some ps \<and> 0 < length ps" by simp
  with stock_path [of scenarioA ps 0, THEN conjunct1]
  have "year (ps ! 0) = 0 + 1 \<and>
        stockValue (ps ! 0) =
          initialNetWorth scenarioA * (1 + stockAnnualReturn scenarioA / 100) +
          (yearlyInvestment scenarioA - weeklyRent scenarioA * 52)"
    by simp
  with ps show ?thesis by blast
qed

section \<open>The property value\<close>

text \<open>
  Claim C8. In every returned sequence the snapshot at index \<open>i\<close> is the one of year
  \<open>t = i + 1\<close> and its \<open>propertyValue\<close> is \<^verbatim>\<open>houseCost * Math.pow(1 + houseGrowthRate / 100, t)\<close>,
  computed from the purchase price and the year alone; for a finite house cost \<open>h\<close> and a
  finite growth rate \<open>g\<close> that is the number \<open>h * (1 + g / 100) ^ t\<close>.
\<close>

theorem property_value_compounds:
  assumes "calculateProjections inputs = Some ps" and "i < length ps"
  shows "year (ps ! i) = i + 1 \<and>
         propertyValue (ps ! i) =
           houseCost inputs * Math_pow (1 + houseGrowthRate inputs / 100) (num (i + 1)) \<and>
         (\<forall>h g. houseCost inputs = Fin h \<and> houseGrowthRate inputs = Fin g \<longrightarrow>
                propertyValue (ps ! i) = Fin (h * (1 + g / 100) ^ (i + 1)))"
proof -
  from assms(1) have em: "emitted inputs 1 (initialNetWorth inputs) 0 0 ps"
    by (rule calculateProjections_emitted)
  from emitted_year [OF em assms(2)] have y: "year (ps ! i) = i + 1" by simp
  from emitted_fields [OF em assms(2)]
  have pv: "propertyValue (ps ! i) =
           houseCost inputs * Math_pow (1 + houseGrowthRate inputs / 100) (num (i + 1))"
    by (simp add: add.commute)
  have "propertyValue (ps ! i) = Fin (h * (1 + g / 100) ^ (i + 1))"
    if "houseCost inputs = Fin h" "houseGrowthRate inputs = Fin g" for h g
  proof -
    have "Math_pow (Fin (1 + g / 100)) (num (i + 1)) = Fin ((1 + g / 100) ^ (i + 1))"
      by (rule Math_pow_Fin_num)
    with pv that show ?thesis by (simp del: Math_pow.simps)
  qed
  with y pv show ?thesis by blast
qed

theorem property_value_compounds_witness:
  "\<exists>ps. calculateProjections scenarioA = Some ps \<and> 0 < length ps \<and>
        year (ps ! 0) = 1 \<and> propertyValue (ps ! 0) = Fin 517500"
proof -
  have "finite_inputs scenarioA" "0 \<le> mortgageRate scenarioA"
    using scenarioA_finite by simp_all
  then obtain ps pt where ps:
    "calculateProjections scenarioA = Some ps"
    "emitted scenarioA 1 (initialNetWorth scenarioA) 0 0 ps"
    "payoffTime scenarioA = Fin pt" "0 \<le> pt"
    "length ps = nat \<lfloor>pt\<rfloor> + 1"
    by (rule projections_exist)
  then have len: "0 < length ps" by simp
  from property_value_compounds [OF ps(1) len]
  have "year (ps ! 0) = 1" "propertyValue (ps ! 0) = Fin (500000 * (1 + 3.5 / 100) ^ (0 + 1))"
    by (simp_all add: scenarioA_def)
  with ps(1) len show ?thesis by auto
qed

section \<open>Further facts on finite inputs and on the scenarios\<close>

lemma scenarioA_negative_rent_finite:
  "finite_inputs scenarioA_negative_rent \<and> 0 \<le> mortgageRate scenarioA_negative_rent"
  by (simp add: scenarioA_negative_rent_def scenarioA_def finite_inputs_def)

lemma projections_nonempty:
  assumes "finite_inputs inputs" "0 \<le> mortgageRate inputs"
  shows "\<exists>ps. calculateProjections inputs = Some ps \<and> ps \<noteq> [] \<and> year (ps ! 0) = 1"
proof -
  from assms obtain ps pt where ps:
    "calculateProjections inputs = Some ps"
    "emitted inputs 1 (initialNetWorth inputs) 0 0 ps"
    "payoffTime inputs = Fin pt" "0 \<le> pt"
    "length ps = nat \<lfloor>pt\<rfloor> + 1"
    by (rule projections_exist)
  then have len: "0 < length ps" by simp
  from emitted_year [OF ps(2) len] have "year (ps ! 0) = 1" by simp
  with ps(1) len show ?thesis by auto
qed

lemma scenarioC_valid: "valid_inputs scenarioC"
  by (simp add: scenarioC_def scenarioA_def valid_inputs_def finite_inputs_def)


lemma valid_inputs_finite:
  "valid_inputs inputs \<Longrightarrow> finite_inputs inputs \<and> 0 \<le> mortgageRate inputs"
  by (simp add: valid_inputs_def)

lemma no_loan_payoffTime:
  "houseCost inputs = Fin h \<Longrightarrow> initialNetWorth inputs = Fin w \<Longrightarrow> h \<le> w \<Longrightarrow>
   payoffTime inputs = Fin 0"
  by (simp add: payoffTime_def loanAmount_def)

lemma single_year:
  assumes "finite_inputs inputs" "0 \<le> mortgageRate inputs" "payoffTime inputs = Fin 0"
  shows "map_option (map year) (calculateProjections inputs) = Some [1]"
proof -
  from projection_run [OF assms] obtain ps where ps:
    "calculateProjections inputs = Some ps"
    "emitted inputs 1 (initialNetWorth inputs) 0 0 ps" "length ps = 1" by auto
  from emitted_year [OF ps(2), of 0] ps(3) have "year (ps ! 0) = 1" by simp
  with ps(3) have "map year ps = [1]" by (cases ps) simp_all
  with ps(1) show ?thesis by simp
qed

lemma emitted_balance_Fin:
  assumes "loanAmount inputs = Fin L" "mortgageRate inputs = Fin a" "0 \<le> a"
    "monthlyMortgage inputs = Fin P" "extraAnnualPayment inputs = Fin e"
    and "emitted inputs y sv cr co new" "i < length new"
  shows "mortgageBalance (new ! i) =
         Fin (balance_value L (a / 100 / 12) (P + e / 12) ((y + i) * 12))"
  using emitted_fields [OF assms(6,7)] calculateMortgageBalance_Fin [OF assms(3), of L P e "y + i"]
  by (simp add: assms(1,2,4,5))

section \<open>Parameter sets without a loan, and unaffordable loans\<close>

text \<open>
  Two families of parameter sets fix the constants of \<^verbatim>\<open>calculateProjections\<close> by
  comparisons alone. When the initial net worth covers the house cost, \<^verbatim>\<open>loanAmount > 0\<close>
  is false, so the payoff time is the literal 0 and the bound of the loop is
  \<^verbatim>\<open>Math.max(5, 2)\<close>. When there is a loan and the yearly investment is below the annual
  mortgage costs, \<^verbatim>\<open>Math.max(0, ...)\<close> gives an extra payment of 0, the first line of
  \<^verbatim>\<open>calculatePayoffTime\<close> returns 30 and the bound of the loop is 32. Neither fact
  depends on the value of a formula, and both hold for fields of any sign and size.
\<close>

lemma no_loan_constants:
  assumes "houseCost inputs \<le> initialNetWorth inputs"
  shows "payoffTime inputs = 0" and "maxYears inputs = 5"
  using no_loan_not_pos [OF assms]
  by (simp_all add: payoffTime_def maxYears_def loanAmount_def)


lemma no_loan_returns:
  assumes "houseCost inputs \<le> initialNetWorth inputs"
  shows "\<exists>ps. calculateProjections inputs = Some ps \<and> 1 \<le> length ps \<and> length ps \<le> 5"
proof -
  note c = no_loan_constants [OF assms]
  from c(2) have "maxYears inputs \<noteq> PInf" by simp
  then obtain ps where "projectionLoop inputs 1 (initialNetWorth inputs) 0 0 [] = Some ps"
    using projectionLoop_terminates by blast
  then have cp: "calculateProjections inputs = Some ps" by (simp add: calculateProjections_def)
  from calculateProjections_emitted [OF cp]
  have em: "emitted inputs 1 (initialNetWorth inputs) 0 0 ps" .
  have "1 - 1 < length ps"
    by (rule emitted_length_ge [OF em]) (simp_all add: c(2))
  then have lo: "1 \<le> length ps" by (cases ps) simp_all
  have hi: "length ps \<le> 5"
  proof (rule ccontr)
    assume "\<not> length ps \<le> 5"
    then have "5 < length ps" by simp
    from emitted_bound [OF em this] c(2) show False by simp
  qed
  from cp lo hi show ?thesis by blast
qed


lemma no_loan_balance:
  assumes v: "valid_inputs inputs" and le: "houseCost inputs \<le> initialNetWorth inputs"
    and cp: "calculateProjections inputs = Some ps" and i: "i < length ps"
  shows "mortgageBalance (ps ! i) = 0"
proof -
  from valid_inputs_finite [OF v]
  have f: "finite_inputs inputs" "0 \<le> mortgageRate inputs" by simp_all
  then obtain L a P e pt where c:
    "loanAmount inputs = Fin L" "mortgageRate inputs = Fin a" "0 \<le> a"
    "monthlyMortgage inputs = Fin P" "extraAnnualPayment inputs = Fin e" "0 \<le> e"
    "payoffTime inputs = Fin pt" "0 \<le> pt"
    "maxYears inputs = Fin (max 5 (of_int \<lceil>pt\<rceil> + 2))"
    "P = (if 0 < L then payment_value L (a / 100 / 12) else 0)"
    by (rule constants_Fin)
  from no_loan_not_pos [OF le] c(1) have L: "L \<le> 0" by (simp add: loanAmount_def)
  with c(10) have "P = 0" by simp
  with c(6) have T: "0 \<le> P + e / 12" by simp
  from c(3) have r: "0 \<le> a / 100 / 12" by simp
  from calculateProjections_emitted [OF cp]
  have em: "emitted inputs 1 (initialNetWorth inputs) 0 0 ps" .
  from emitted_balance_Fin [OF c(1,2,3,4,5) em i] balance_value_no_loan [OF L T r]
  show ?thesis by simp
qed



section \<open>Invalid parameters\<close>

text \<open>
  Claim C5. A parameter set with a negative field is to be refused before the simulation.
  \<^verbatim>\<open>calculateProjections\<close> checks nothing: Scenario A with a weekly rent of -500 is not a
  valid parameter set, and the function returns a sequence for it that is not empty.
\<close>

theorem negative_rent_is_simulated:
  "weeklyRent scenarioA_negative_rent < 0 \<and>
   \<not> valid_inputs scenarioA_negative_rent \<and>
   calculateProjections scenarioA_negative_rent \<noteq> None \<and>
   calculateProjections scenarioA_negative_rent \<noteq> Some []"
proof -
  have "finite_inputs scenarioA_negative_rent" "0 \<le> mortgageRate scenarioA_negative_rent"
    using scenarioA_negative_rent_finite by simp_all
  from projections_nonempty [OF this] obtain ps where
    "calculateProjections scenarioA_negative_rent = Some ps" "ps \<noteq> []" by blast
  then show ?thesis
    by (simp add: scenarioA_negative_rent_def scenarioA_def valid_inputs_def)
qed

text \<open>
  Claim C5, as the code has it. The result of \<^verbatim>\<open>calculateProjections\<close> has no error value
  and the function never looks at the sign or the size of a field. For every parameter set,
  valid or not, each snapshot of a returned sequence is computed from the fields as they
  are: the snapshot at index \<open>i\<close> is the one of year \<open>i + 1\<close>, the rent paid and the
  ownership costs paid are the previous totals (0 before the first year) plus
  \<^verbatim>\<open>weeklyRent * 52\<close> and \<^verbatim>\<open>ownersCorp\<close>, and the cumulative investment is
  \<^verbatim>\<open>initialNetWorth + (yearlyInvestment - weeklyRent * 52) * year\<close>, with nothing
  refused, clamped or replaced. And for every parameter set whose initial net worth covers
  the house cost, whatever its other fields are, the simulation runs and returns a sequence
  that is not empty.
\<close>

theorem parameters_not_checked:
  "(calculateProjections inputs = Some ps \<and> i < length ps \<longrightarrow>
      year (ps ! i) = i + 1 \<and>
      rentPaid (ps ! i) =
        (if i = 0 then 0 else rentPaid (ps ! (i - 1))) + weeklyRent inputs * 52 \<and>
      ownersCostsPaid (ps ! i) =
        (if i = 0 then 0 else ownersCostsPaid (ps ! (i - 1))) + ownersCorp inputs \<and>
      stockCumulativeInvestment (ps ! i) =
        initialNetWorth inputs +
        (yearlyInvestment inputs - weeklyRent inputs * 52) * num (i + 1)) \<and>
   (houseCost inputs \<le> initialNetWorth inputs \<longrightarrow>
      (\<exists>qs. calculateProjections inputs = Some qs \<and> qs \<noteq> []))"
proof (intro conjI impI)
  assume a: "calculateProjections inputs = Some ps \<and> i < length ps"
  then have em: "emitted inputs 1 (initialNetWorth inputs) 0 0 ps"
    by (intro calculateProjections_emitted) simp
  from a have i: "i < length ps" by simp
  from emitted_year [OF em i] show "year (ps ! i) = i + 1" by simp
  note t = emitted_totals [OF em i]
  from t show "rentPaid (ps ! i) =
        (if i = 0 then 0 else rentPaid (ps ! (i - 1))) + weeklyRent inputs * 52"
    by simp
  from t show "ownersCostsPaid (ps ! i) =
        (if i = 0 then 0 else ownersCostsPaid (ps ! (i - 1))) + ownersCorp inputs"
    by simp
  from t show "stockCumulativeInvestment (ps ! i) =
        initialNetWorth inputs +
        (yearlyInvestment inputs - weeklyRent inputs * 52) * num (i + 1)"
    by (simp add: add.commute)
next
  assume "houseCost inputs \<le> initialNetWorth inputs"
  from no_loan_returns [OF this] obtain qs where
    "calculateProjections inputs = Some qs" "1 \<le> length qs" by blast
  moreover from this(2) have "qs \<noteq> []" by auto
  ultimately show "\<exists>qs. calculateProjections inputs = Some qs \<and> qs \<noteq> []" by blast
qed

theorem parameters_not_checked_witness:
  "weeklyRent scenarioA_negative_rent < 0 \<and>
   (\<exists>ps. calculateProjections scenarioA_negative_rent = Some ps \<and> 0 < length ps \<and>
         year (ps ! 0) = 1 \<and> rentPaid (ps ! 0) = Fin (- 26000) \<and>
         ownersCostsPaid (ps ! 0) = Fin 5000 \<and>
         stockCumulativeInvestment (ps ! 0) = Fin 161000) \<and>
   weeklyRent scenarioC_negative_rent < 0 \<and>
   houseCost scenarioC_negative_rent \<le> initialNetWorth scenarioC_negative_rent \<and>
   (\<exists>qs. calculateProjections scenarioC_negative_rent = Some qs \<and> qs \<noteq> [])"
proof -
  have f: "finite_inputs scenarioA_negative_rent" "0 \<le> mortgageRate scenarioA_negative_rent"
    using scenarioA_negative_rent_finite by simp_all
  from projections_nonempty [OF f] obtain ps where
    ps: "calculateProjections scenarioA_negative_rent = Some ps" "ps \<noteq> []" by blast
  then have "calculateProjections scenarioA_negative_rent = Some ps \<and> 0 < length ps" by simp
  with parameters_not_checked [of scenarioA_negative_rent ps 0, THEN conjunct1]
  have "year (ps ! 0) = 1 \<and> rentPaid (ps ! 0) = Fin (- 26000) \<and>
         ownersCostsPaid (ps ! 0) = Fin 5000 \<and>
         stockCumulativeInvestment (ps ! 0) = Fin 161000"
    by (simp add: scenarioA_negative_rent_def scenarioA_def)
  with ps have 1: "\<exists>ps. calculateProjections scenarioA_negative_rent = Some ps \<and> 0 < length ps \<and>
         year (ps ! 0) = 1 \<and> rentPaid (ps ! 0) = Fin (- 26000) \<and>
         ownersCostsPaid (ps ! 0) = Fin 5000 \<and>
         stockCumulativeInvestment (ps ! 0) = Fin 161000"
    by auto
  have a: "weeklyRent scenarioA_negative_rent < 0"
    by (simp add: scenarioA_negative_rent_def scenarioA_def)
  have c: "weeklyRent scenarioC_negative_rent < 0"
    by (simp add: scenarioC_negative_rent_def scenarioC_def scenarioA_def)
  have le: "houseCost scenarioC_negative_rent \<le> initialNetWorth scenarioC_negative_rent"
    by (simp add: scenarioC_negative_rent_def scenarioC_def scenarioA_def)
  from parameters_not_checked [of scenarioC_negative_rent, THEN conjunct2, rule_format, OF le]
  have 2: "\<exists>qs. calculateProjections scenarioC_negative_rent = Some qs \<and> qs \<noteq> []" .
  from a 1 c le 2 show ?thesis by (intro conjI)
qed

section \<open>The horizon\<close>

text \<open>
  Claim C1. The returned sequence is to hold at least 5 snapshots, also when the initial net
  worth covers the house cost. For Scenario C, a valid parameter set with an initial net
  worth of 600000 and a house cost of 500000, the function returns the snapshot of year 1
  and nothing else: the \<^verbatim>\<open>break\<close> ends the loop in the first year whose balance is 0 and
  which is past the payoff time.
\<close>

theorem scenarioC_single_year:
  "valid_inputs scenarioC \<and> houseCost scenarioC \<le> initialNetWorth scenarioC \<and>
   map_option (map year) (calculateProjections scenarioC) = Some [1]"
proof -
  have "payoffTime scenarioC = Fin 0"
    by (rule no_loan_payoffTime [of _ 500000 600000]) (simp_all add: scenarioC_def scenarioA_def)
  with valid_inputs_finite [OF scenarioC_valid]
  have "map_option (map year) (calculateProjections scenarioC) = Some [1]"
    by (intro single_year) simp_all
  with scenarioC_valid show ?thesis by (simp add: scenarioC_def scenarioA_def)
qed

text \<open>
  Claim C1, as the code has it. \<^verbatim>\<open>Math.max(5, Math.ceil(payoffTime) + 2)\<close> is the bound
  of the loop, not the number of snapshots. In every sequence that the function returns, the
  snapshot at index \<open>i\<close> is the one of year \<open>i + 1\<close> and that year is within the bound; no
  snapshot before the last one meets the condition of the \<^verbatim>\<open>break\<close> (a mortgage balance
  of at most 0 in a year past the payoff time); and the last one meets it, unless the year
  after it is beyond the bound. When the initial net worth covers the house cost, the payoff
  time is 0 and the function returns at least 1 and at most 5 snapshots, none of which, for a
  valid parameter set, has a positive mortgage balance.
\<close>

theorem projection_years:
  "(calculateProjections inputs = Some ps \<longrightarrow>
      (\<forall>i<length ps. year (ps ! i) = i + 1 \<and>
         num (i + 1) \<le> Math_max 5 (Math_ceil (payoffTime inputs) + 2)) \<and>
      (\<forall>i. i + 1 < length ps \<longrightarrow>
         \<not> (mortgageBalance (ps ! i) \<le> 0 \<and> payoffTime inputs < num (i + 1))) \<and>
      (ps \<noteq> [] \<longrightarrow>
         (mortgageBalance (last ps) \<le> 0 \<and> payoffTime inputs < num (length ps)) \<or>
         \<not> num (length ps + 1) \<le> Math_max 5 (Math_ceil (payoffTime inputs) + 2))) \<and>
   (houseCost inputs \<le> initialNetWorth inputs \<longrightarrow>
      payoffTime inputs = 0 \<and>
      (\<exists>qs. calculateProjections inputs = Some qs \<and> 1 \<le> length qs \<and> length qs \<le> 5 \<and>
            (valid_inputs inputs \<longrightarrow> (\<forall>i<length qs. \<not> 0 < mortgageBalance (qs ! i)))))"
  (is "(?R \<longrightarrow> ?A \<and> ?B \<and> ?C) \<and> (?N \<longrightarrow> ?D)")
proof (rule conjI)
  show "?R \<longrightarrow> ?A \<and> ?B \<and> ?C"
  proof (rule impI)
    assume cp: ?R
    from calculateProjections_emitted [OF cp]
    have em: "emitted inputs 1 (initialNetWorth inputs) 0 0 ps" .
    have a: ?A
      using emitted_year [OF em] emitted_bound [OF em]
      by (simp add: maxYears_def add.commute)
    have b: ?B
    proof (intro allI impI)
      fix i assume i: "i + 1 < length ps"
      then have i': "i < length ps" by simp
      from emitted_no_stop [OF em, of i] i have "\<not> stops inputs (1 + i)" by simp
      with emitted_stops [OF em i'] emitted_year [OF em i']
      show "\<not> (mortgageBalance (ps ! i) \<le> 0 \<and> payoffTime inputs < num (i + 1))"
        by (simp add: add.commute)
    qed
    have c: ?C
    proof (rule impI)
      assume ne: "ps \<noteq> []"
      then have l: "length ps - 1 < length ps" by simp
      from ne have lst: "last ps = ps ! (length ps - 1)" by (rule last_conv_nth)
      from ne have n: "1 + (length ps - 1) = length ps" by simp
      from emitted_stops [OF em l] emitted_year [OF em l] n lst
      have st: "stops inputs (length ps) \<longleftrightarrow>
            mortgageBalance (last ps) \<le> 0 \<and> payoffTime inputs < num (length ps)"
        by simp
      from emitted_last [OF em ne] n
      have "stops inputs (length ps) \<or> \<not> num (1 + length ps) \<le> maxYears inputs" by simp
      with st show "(mortgageBalance (last ps) \<le> 0 \<and> payoffTime inputs < num (length ps)) \<or>
         \<not> num (length ps + 1) \<le> Math_max 5 (Math_ceil (payoffTime inputs) + 2)"
        by (simp add: maxYears_def add.commute)
    qed
    from a b c show "?A \<and> ?B \<and> ?C" by (intro conjI)
  qed
  show "?N \<longrightarrow> ?D"
  proof (rule impI)
    assume le: ?N
    from no_loan_returns [OF le] obtain qs where
      qs: "calculateProjections inputs = Some qs" "1 \<le> length qs" "length qs \<le> 5" by blast
    have "\<forall>i<length qs. \<not> 0 < mortgageBalance (qs ! i)" if v: "valid_inputs inputs"
      using no_loan_balance [OF v le qs(1)] by simp
    with qs no_loan_constants(1) [OF le] show ?D by blast
  qed
qed

theorem projection_years_witness:
  "valid_inputs scenarioC \<and> houseCost scenarioC \<le> initialNetWorth scenarioC \<and>
   payoffTime scenarioC = 0 \<and>
   (\<exists>ps. calculateProjections scenarioC = Some ps \<and> length ps = 1 \<and>
         year (ps ! 0) = 1 \<and> num 1 \<le> Math_max 5 (Math_ceil (payoffTime scenarioC) + 2) \<and>
         mortgageBalance (last ps) \<le> 0 \<and> payoffTime scenarioC < num (length ps) \<and>
         \<not> 0 < mortgageBalance (ps ! 0))"
proof -
  have le: "houseCost scenarioC \<le> initialNetWorth scenarioC"
    by (simp add: scenarioC_def scenarioA_def)
  from projection_years [of scenarioC, THEN conjunct2, rule_format, OF le]
  obtain ps where pt: "payoffTime scenarioC = 0" and
    ps: "calculateProjections scenarioC = Some ps" "1 \<le> length ps" "length ps \<le> 5"
       "valid_inputs scenarioC \<longrightarrow> (\<forall>i<length ps. \<not> 0 < mortgageBalance (ps ! i))"
    by blast
  from ps(2) have "0 < length ps" by (cases ps) simp_all
  with ps(4) scenarioC_valid have nb: "\<not> 0 < mortgageBalance (ps ! 0)" by blast
  have "payoffTime scenarioC = Fin 0" using pt by simp
  with valid_inputs_finite [OF scenarioC_valid]
  have "map_option (map year) (calculateProjections scenarioC) = Some [1]"
    by (intro single_year) simp_all
  with ps(1) have "map year ps = [1]" by simp
  then have len: "length ps = 1" by (metis length_map length_Cons list.size(3) One_nat_def)
  then have ne: "ps \<noteq> []" by auto
  note s = projection_years [of scenarioC ps, THEN conjunct1, rule_format, OF ps(1)]
  from s [THEN conjunct1] len
  have y: "year (ps ! 0) = 1 \<and> num 1 \<le> Math_max 5 (Math_ceil (payoffTime scenarioC) + 2)"
    by simp
  from s [THEN conjunct2, THEN conjunct2] ne len
  have "(mortgageBalance (last ps) \<le> 0 \<and> payoffTime scenarioC < num (length ps)) \<or>
         \<not> num 2 \<le> Math_max 5 (Math_ceil (payoffTime scenarioC) + 2)"
    by simp
  then have l: "mortgageBalance (last ps) \<le> 0 \<and> payoffTime scenarioC < num (length ps)"
    by (simp add: pt)
  from scenarioC_valid le pt ps(1) len y l nb show ?thesis by blast
qed

section \<open>The unaffordable case\<close>




section \<open>The mortgage balance in year 30\<close>



section \<open>The zero-rate branch\<close>

text \<open>
  With an annual rate of 0 the monthly rate is \<^verbatim>\<open>0 / 100 / 12 = 0\<close>, the test
  \<^verbatim>\<open>monthlyRate === 0\<close> holds and \<^verbatim>\<open>calculateMortgagePayment\<close> returns
  \<^verbatim>\<open>principal / (termYears * 12)\<close>, for every principal and term. The test is on the
  rate; the divisor of the other branch, \<^verbatim>\<open>Math.pow(1 + monthlyRate, numPayments) - 1\<close>,
  is not tested.
\<close>

lemma calculateMortgagePayment_zero_rate:
  "calculateMortgagePayment principal' 0 termYears = principal' / (termYears * 12)"
  by (simp add: calculateMortgagePayment_def)

section \<open>The payoff time\<close>

text \<open>
  The two returns of \<^verbatim>\<open>calculatePayoffTime\<close> after its first line: the zero-rate
  quotient is not negative when the principal and the monthly payment are not, and
  \<^verbatim>\<open>Math.max(0.1, ...)\<close> is never negative.
\<close>

lemma Math_max_tenth_not_less: "\<not> Math_max (Fin (1 / 10)) a < 0"
  by (cases a) (simp_all add: Math_max_def)

lemma zero_rate_payoff_not_negative:
  "0 \<le> p \<Longrightarrow> 0 \<le> m \<Longrightarrow> \<not> e \<le> 0 \<Longrightarrow> \<not> p / ((m + e / 12) * 12) < (0::jsnum)"
proof (cases p; cases m; cases e)
  fix x y z
  assume pme: "p = Fin x" "m = Fin y" "e = Fin z"
    and h: "0 \<le> p" "0 \<le> m" "\<not> e \<le> 0"
  from pme h have "0 \<le> x" "0 \<le> y" "0 < z" by simp_all
  then have "0 < (y + z / 12) * 12" by simp
  with \<open>0 \<le> x\<close> have "0 \<le> x / ((y + z / 12) * 12)" by simp
  with \<open>0 < (y + z / 12) * 12\<close> show ?thesis
    unfolding pme by (simp add: not_less)
qed (simp_all add: signed_inf_def)

text \<open>
  Claim C3. A total monthly payment that does not exceed the interest-only payment is to be
  reported as a non-amortizing loan, and the result is never to be NaN. On a principal of
  100000 at 12 percent the monthly interest is 1000; with a monthly payment of 500 and an
  extra annual payment of 1200 the total monthly payment is 600, the argument of the
  logarithm is negative, and \<^verbatim>\<open>calculatePayoffTime\<close> returns NaN.
\<close>

theorem payoff_time_NaN:
  "Fin 500 + Fin 1200 / 12 \<le> Fin 100000 * (Fin 12 / 100 / 12) \<and>
   calculatePayoffTime (Fin 100000) (Fin 12) (Fin 500) (Fin 1200) = NaN"
  by (simp add: calculatePayoffTime_def Math_max_def)

text \<open>
  Claim C3, as the code has it. \<^verbatim>\<open>calculatePayoffTime\<close> has no result for a loan that does
  not amortize: its results are numbers, NaN among them. Whenever the extra annual payment
  is 0 or less it returns 30, whatever the principal, the rate and the monthly payment are,
  so that a payment below the monthly interest gives the 30 of an ordinary loan; and for a
  principal and a monthly payment that are not negative it never returns a negative number.
\<close>

theorem payoff_time_results:
  "(e \<le> 0 \<longrightarrow> calculatePayoffTime p a m e = 30) \<and>
   (0 \<le> p \<and> 0 \<le> m \<longrightarrow> \<not> calculatePayoffTime p a m e < 0)"
proof (intro conjI impI)
  assume "e \<le> 0"
  then show "calculatePayoffTime p a m e = 30"
    by (simp add: calculatePayoffTime_def)
next
  assume pm: "0 \<le> p \<and> 0 \<le> m"
  show "\<not> calculatePayoffTime p a m e < 0"
  proof (cases "e \<le> 0")
    case True
    then show ?thesis by (simp add: calculatePayoffTime_def)
  next
    case False
    show ?thesis
    proof (cases "strict_eq (a / 100 / 12) 0")
      case True
      with False zero_rate_payoff_not_negative [of p m e] pm show ?thesis
        by (simp add: calculatePayoffTime_def)
    next
      case z: False
      with False Math_max_tenth_not_less show ?thesis
        by (simp add: calculatePayoffTime_def Let_def)
    qed
  qed
qed

theorem payoff_time_results_witness:
  "(0::jsnum) \<le> 0 \<and> 0 \<le> Fin 100000 \<and> 0 \<le> Fin 500 \<and>
   Fin 500 + 0 / 12 \<le> Fin 100000 * (Fin 12 / 100 / 12) \<and>
   calculatePayoffTime (Fin 100000) (Fin 12) (Fin 500) 0 = 30 \<and>
   \<not> calculatePayoffTime (Fin 100000) (Fin 12) (Fin 500) 0 < 0"
proof -
  have h: "(0::jsnum) \<le> 0" "0 \<le> Fin 100000 \<and> 0 \<le> Fin 500" by simp_all
  have n: "Fin 500 + 0 / 12 \<le> Fin 100000 * (Fin 12 / 100 / 12)" by simp
  note t = payoff_time_results [of 0 "Fin 100000" "Fin 12" "Fin 500"]
  from t [THEN conjunct1, rule_format, OF h(1)] t [THEN conjunct2, rule_format, OF h(2)] h n
  show ?thesis by blast
qed

end
